theory Spec2Isabelle
  imports Main
begin

section \<open>Faster-RCNN inference script (examples/faster-rcnn/inference.py)\<close>

text \<open>
  The script is a module body: it parses the command line, builds the backend, the data
  loader and the network through library calls, runs one forward pass per image and hands
  two accumulator lists to \<open>voc_eval\<close>. The embedding follows the module body line by
  line. A run is a function from the interpreter version, the library (a record of
  functions, \<open>env\<close>) and the parsed arguments to the list of library calls and outputs the
  run performs, in order, together with the way the run ends: a Python exception
  (\<open>Inl\<close>) or the final accumulators (\<open>Inr\<close>).

  Library objects the script only passes along (backend, data loader, model, images,
  network outputs) are values of one opaque type \<open>'v\<close>; the numbers held in the
  ground-truth buffers are values of a type \<open>'a\<close> whose division is the library's
  (\<open>fdiv\<close>), and a detection row is a value of \<open>'d\<close>. A library call is a function of its
  arguments; a call made for its effect on an object (\<open>load_params\<close>, \<open>initialize\<close>)
  returns the object afterwards. Assertions are enabled, as they are unless the
  interpreter is started with \<open>-O\<close>.
\<close>

subsection \<open>Values\<close>

datatype py_version = Python2 | Python3

datatype py_error =
    AssertionError string
  | NameError string
  | IndexError
  | ValueError

text \<open>A float literal of the source, kept as it is written.\<close>

datatype pyfloat = FloatLit string

text \<open>The namespace returned by \<open>parser.parse_args()\<close> (lines 54 to 62).\<close>

record args =
  model_file :: "string option"
  manifest :: "string \<rightharpoonup> string"
  batch_size :: int
  normalize :: bool
  output_dir :: "string option"
  data_dir :: string
  width :: int
  height :: int

text \<open>
  A two-dimensional numpy array: its number of columns and its rows. The number of
  columns is kept apart from the rows, since an array may have no row.
\<close>

record 'a ndarray =
  ncols :: nat
  rws :: "'a list list"

definition wf_ndarray :: "'a ndarray \<Rightarrow> bool" where
  "wf_ndarray a = list_all (\<lambda>r. length r = ncols a) (rws a)"

text \<open>
  What one iteration over \<open>valid_set\<close> delivers: the pair \<open>(x, y)\<close> and the metadata
  buffers that \<open>valid_set.get_metadata_buffers()\<close> returns during that iteration. The
  fields \<open>num_gt_boxes\<close> and \<open>im_scale\<close> hold \<open>int(num_gt_boxes.get())\<close> and
  \<open>float(im_scale.get())\<close>; the array fields hold the result of \<open>.get()\<close>.
\<close>

record ('v, 'a) minibatch =
  mb_x :: 'v
  mb_y :: 'v
  im_shape :: 'v
  im_scale :: 'a
  gt_boxes :: "'a ndarray"
  gt_classes :: "'a ndarray"
  num_gt_boxes :: int
  difficult :: "'a ndarray"

text \<open>An entry of \<open>all_gt_boxes\<close>: the empty list it starts as, or an array.\<close>

datatype 'a gt_entry = EmptyList | GtArray "'a ndarray"

subsection \<open>The library\<close>

record ('v, 'a, 'd) env =
  extract_valid_args :: "args \<Rightarrow> 'v"
  gen_backend :: "'v \<Rightarrow> 'v"
  get_data_cache_dir :: "string \<Rightarrow> string \<Rightarrow> string"
  PASCALVOC :: "string \<Rightarrow> string \<Rightarrow> int \<Rightarrow> int \<Rightarrow> int \<Rightarrow> bool \<Rightarrow> 'v"
  DataLoader :: "'v \<Rightarrow> 'v \<Rightarrow> 'v"
  TypeCast :: "'v \<Rightarrow> 'v"
  BGRMeanSubtract :: "'v \<Rightarrow> 'v"
  ObjectLocalization :: "'v \<Rightarrow> int \<Rightarrow> 'v"
  num_classes :: "'v \<Rightarrow> int"
  ndata :: "'v \<Rightarrow> int"
  CLASSES :: "'v \<Rightarrow> 'v"
  iterate :: "'v \<Rightarrow> ('v, 'a) minibatch list"
  build_model :: "'v \<Rightarrow> int \<Rightarrow> bool \<Rightarrow> 'v \<times> 'v"
  load_params :: "'v \<Rightarrow> string \<Rightarrow> 'v"
  initialize :: "'v \<Rightarrow> 'v \<Rightarrow> 'v"
  scale_bbreg_weights :: "'v \<Rightarrow> pyfloat list \<Rightarrow> pyfloat list \<Rightarrow> int \<Rightarrow> 'v"
  fprop :: "'v \<Rightarrow> 'v \<Rightarrow> 'v"
  get_proposals :: "'v \<Rightarrow> 'v \<Rightarrow> 'v \<Rightarrow> 'v \<times> 'v"
  get_bboxes :: "'v \<Rightarrow> 'v \<times> 'v \<Rightarrow> int \<Rightarrow> 'v \<Rightarrow> 'a \<Rightarrow> int \<Rightarrow> pyfloat \<Rightarrow> pyfloat
    \<Rightarrow> 'd list list"
  fdiv :: "'a \<Rightarrow> 'a \<Rightarrow> 'a"
  of_bool_cell :: "bool \<Rightarrow> 'a"

subsection \<open>Calls and outputs of a run\<close>

datatype ('v, 'a, 'd) event =
    ParseArgs
  | GenBackend 'v
  | GetDataCacheDir string string
  | PascalVocConfig string string int int int bool
  | NewDataLoader
  | NewTypeCast
  | NewBGRMeanSubtract
  | NewObjectLocalization int
  | BuildModel int bool
  | LoadParams string
  | Initialize
  | ScaleBBRegWeights "pyfloat list" "pyfloat list" int
  | StdoutWrite string
  | StdoutFlush
  | Fprop 'v 'v
  | GetMetadataBuffers
  | GetProposals
  | GetBBoxes int int pyfloat pyfloat
  | SetAllBoxes nat
  | SetAllGtBoxes nat
  | LoggerDisplay string
  | VocEval "'d list list list" "'a gt_entry list" 'v bool

subsection \<open>Helpers from Python's library\<close>

text \<open>\<open>os.path.join\<close> of two components (posixpath).\<close>

definition os_path_join :: "string \<Rightarrow> string \<Rightarrow> string" where
  "os_path_join a b =
     (if b \<noteq> [] \<and> hd b = CHR ''/'' then b
      else if a = [] \<or> last a = CHR ''/'' then a @ b
      else a @ ''/'' @ b)"

text \<open>\<open>"{}".format(n)\<close> for an integer: its decimal digits, with a sign when negative.\<close>

definition digit_char :: "nat \<Rightarrow> char" where
  "digit_char d = ''0123456789'' ! d"

fun str_of_nat :: "nat \<Rightarrow> string" where
  "str_of_nat n =
     (if n < 10 then [digit_char n] else str_of_nat (n div 10) @ [digit_char (n mod 10)])"

declare str_of_nat.simps [simp del]

definition str_of_int :: "int \<Rightarrow> string" where
  "str_of_int i = (if i < 0 then CHR ''-'' # str_of_nat (nat (- i)) else str_of_nat (nat i))"

text \<open>The slice \<open>xs[:n]\<close>: a negative \<open>n\<close> counts from the end.\<close>

definition slice_to :: "int \<Rightarrow> 'b list \<Rightarrow> 'b list" where
  "slice_to n xs = (if 0 \<le> n then take (nat n) xs else take (length xs - nat (- n)) xs)"

definition rows_to :: "int \<Rightarrow> 'a ndarray \<Rightarrow> 'a ndarray" where
  "rows_to n a = a\<lparr>rws := slice_to n (rws a)\<rparr>"

text \<open>Division of every cell by a scalar.\<close>

definition div_scalar :: "('a \<Rightarrow> 'a \<Rightarrow> 'a) \<Rightarrow> 'a ndarray \<Rightarrow> 'a \<Rightarrow> 'a ndarray" where
  "div_scalar dv a s = a\<lparr>rws := map (map (\<lambda>c. dv c s)) (rws a)\<rparr>"

text \<open>\<open>d[:, np.newaxis]\<close> of a one-dimensional array: one column.\<close>

definition newaxis_col :: "'b list \<Rightarrow> 'b ndarray" where
  "newaxis_col d = \<lparr>ncols = 1, rws = map (\<lambda>c. [c]) d\<rparr>"

text \<open>
  \<open>np.hstack\<close> of two-dimensional arrays: the arrays side by side. It raises ValueError
  when two of them differ in their number of rows (and on an empty sequence).
\<close>

fun hstack :: "'a ndarray list \<Rightarrow> py_error + 'a ndarray" where
  "hstack [] = Inl ValueError"
| "hstack [a] = Inr a"
| "hstack (a # b # bs) =
     (case hstack (b # bs) of
        Inl e \<Rightarrow> Inl e
      | Inr r \<Rightarrow>
          if length (rws a) = length (rws r)
          then Inr \<lparr>ncols = ncols a + ncols r, rws = map2 (@) (rws a) (rws r)\<rparr>
          else Inl ValueError)"

subsection \<open>Lines 62 to 70: the default output directory and the assertions\<close>

definition resolve_output_dir :: "args \<Rightarrow> args" where
  "resolve_output_dir a =
     (case output_dir a of
        None \<Rightarrow> a\<lparr>output_dir := Some (os_path_join (data_dir a) ''frcn_output'')\<rparr>
      | Some d \<Rightarrow> a)"

text \<open>
  The three assertions, in the order of the source. \<open>args.batch_size is 1\<close> compares an
  integer with the integer 1.
\<close>

definition check_args :: "args \<Rightarrow> py_error option" where
  "check_args a =
     (if model_file a = None
      then Some (AssertionError ''Model file required for Faster-RCNN testing'')
      else if manifest a ''val'' = None
      then Some (AssertionError ''Path to manifest file requred'')
      else if batch_size a \<noteq> 1
      then Some (AssertionError ''Faster-RCNN only supports batch size 1'')
      else None)"

definition rpn_rois_per_img :: int where
  "rpn_rois_per_img = 256"

definition frcn_rois_per_img :: int where
  "frcn_rois_per_img = 128"

subsection \<open>Lines 74 to 102: backend, data loader, model\<close>

text \<open>What the rest of the script keeps from the set-up.\<close>

record 'v built =
  su_be :: 'v
  su_valid_set :: 'v
  su_num_classes :: int
  su_model :: 'v
  su_proposalLayer :: 'v

definition build_valid_set :: "('v, 'a, 'd) env \<Rightarrow> args \<Rightarrow> 'v \<Rightarrow> 'v" where
  "build_valid_set env a be =
     (let cache_dir = get_data_cache_dir env (data_dir a) ''pascalvoc_cache'';
          config = PASCALVOC env (the (manifest a ''val'')) cache_dir (width a) (height a)
                     rpn_rois_per_img True;
          dl = DataLoader env config be;
          dl = TypeCast env dl;
          dl = BGRMeanSubtract env dl
      in ObjectLocalization env dl frcn_rois_per_img)"

definition build_setup :: "('v, 'a, 'd) env \<Rightarrow> args \<Rightarrow> 'v built" where
  "build_setup env a =
     (let be = gen_backend env (extract_valid_args env a);
          valid_set = build_valid_set env a be;
          ncls = num_classes env valid_set;
          (model, proposalLayer) = build_model env valid_set frcn_rois_per_img True;
          model = load_params env model (the (model_file a));
          model = initialize env model valid_set;
          model = (if normalize a
                   then scale_bbreg_weights env model
                          [FloatLit ''0.0'', FloatLit ''0.0'', FloatLit ''0.0'', FloatLit ''0.0'']
                          [FloatLit ''0.1'', FloatLit ''0.1'', FloatLit ''0.2'', FloatLit ''0.2'']
                          ncls
                   else model)
      in \<lparr>su_be = be, su_valid_set = valid_set, su_num_classes = ncls,
          su_model = model, su_proposalLayer = proposalLayer\<rparr>)"

definition setup_events :: "('v, 'a, 'd) env \<Rightarrow> args \<Rightarrow> ('v, 'a, 'd) event list" where
  "setup_events env a =
     [GenBackend (extract_valid_args env a),
      GetDataCacheDir (data_dir a) ''pascalvoc_cache'',
      PascalVocConfig (the (manifest a ''val''))
        (get_data_cache_dir env (data_dir a) ''pascalvoc_cache'')
        (width a) (height a) rpn_rois_per_img True,
      NewDataLoader, NewTypeCast, NewBGRMeanSubtract,
      NewObjectLocalization frcn_rois_per_img,
      BuildModel frcn_rois_per_img True,
      LoadParams (the (model_file a)),
      Initialize]
     @ (if normalize a
        then [ScaleBBRegWeights
                [FloatLit ''0.0'', FloatLit ''0.0'', FloatLit ''0.0'', FloatLit ''0.0'']
                [FloatLit ''0.1'', FloatLit ''0.1'', FloatLit ''0.2'', FloatLit ''0.2'']
                (num_classes env
                   (build_valid_set env a (gen_backend env (extract_valid_args env a))))]
        else [])"

subsection \<open>Lines 107 to 117: detection parameters and accumulators\<close>

definition max_per_image :: int where
  "max_per_image = 100"

definition thresh :: pyfloat where
  "thresh = FloatLit ''0.001''"

definition nms_thresh :: pyfloat where
  "nms_thresh = FloatLit ''0.3''"

text \<open>\<open>[[[] for _ in range(num_classes)] for _ in range(num_images)]\<close>\<close>

definition init_all_boxes :: "int \<Rightarrow> int \<Rightarrow> 'd list list list" where
  "init_all_boxes ncls num_images = replicate (nat num_images) (replicate (nat ncls) [])"

text \<open>\<open>[[] for _ in xrange(num_images)]\<close>, where \<open>xrange\<close> is a name of Python 2 only.\<close>

definition init_all_gt_boxes :: "py_version \<Rightarrow> int \<Rightarrow> py_error + 'a gt_entry list" where
  "init_all_gt_boxes v num_images =
     (case v of
        Python3 \<Rightarrow> Inl (NameError ''xrange'')
      | Python2 \<Rightarrow> Inr (replicate (nat num_images) EmptyList))"

subsection \<open>Lines 119 to 154: the loop\<close>

record ('a, 'd) accs =
  all_boxes :: "'d list list list"
  all_gt_boxes :: "'a gt_entry list"
  last_strlen :: nat

definition prt_str :: "nat \<Rightarrow> int \<Rightarrow> string" where
  "prt_str mb_idx num_images = ''Finished: '' @ str_of_nat mb_idx @ '' / '' @ str_of_int num_images"

definition erase_str :: "nat \<Rightarrow> string" where
  "erase_str n = CHR 0x0D # replicate n CHR '' '' @ [CHR 0x0D]"

text \<open>Lines 149 to 152: the ground-truth array of one image.\<close>

definition assemble_gt :: "('v, 'a, 'd) env \<Rightarrow> ('v, 'a) minibatch \<Rightarrow> py_error + 'a ndarray" where
  "assemble_gt env mb =
     (let n = num_gt_boxes mb;
          detected = replicate (nat n) False
      in hstack [div_scalar (fdiv env) (rows_to n (gt_boxes mb)) (im_scale mb),
                 rows_to n (gt_classes mb),
                 rows_to n (difficult mb),
                 newaxis_col (map (of_bool_cell env) detected)])"

text \<open>
  One iteration, for the image with index \<open>mb_idx\<close>. An assignment to a list index that
  is out of range raises IndexError.
\<close>

definition loop_body ::
  "('v, 'a, 'd) env \<Rightarrow> 'v built \<Rightarrow> int \<Rightarrow> nat \<Rightarrow> ('v, 'a) minibatch \<Rightarrow> ('a, 'd) accs
     \<Rightarrow> ('v, 'a, 'd) event list \<times> (py_error + ('a, 'd) accs)" where
  "loop_body env su num_images mb_idx mb st =
     (let p = prt_str mb_idx num_images;
          outputs = fprop env (su_model su) (mb_x mb);
          props = get_proposals env (su_proposalLayer su) (su_model su) (mb_x mb);
          boxes = get_bboxes env outputs props (num_classes env (su_valid_set su))
                    (im_shape mb) (im_scale mb) max_per_image thresh nms_thresh;
          ev1 = [StdoutWrite (erase_str (last_strlen st)), StdoutWrite p, StdoutFlush,
                 Fprop (su_model su) (mb_x mb), GetMetadataBuffers, GetProposals,
                 GetBBoxes (num_classes env (su_valid_set su)) max_per_image thresh nms_thresh]
      in if \<not> mb_idx < length (all_boxes st) then (ev1, Inl IndexError)
         else
           (case assemble_gt env mb of
              Inl e \<Rightarrow> (ev1 @ [SetAllBoxes mb_idx], Inl e)
            | Inr g \<Rightarrow>
                if \<not> mb_idx < length (all_gt_boxes st)
                then (ev1 @ [SetAllBoxes mb_idx], Inl IndexError)
                else (ev1 @ [SetAllBoxes mb_idx, SetAllGtBoxes mb_idx],
                      Inr \<lparr>all_boxes = (all_boxes st)[mb_idx := boxes],
                           all_gt_boxes = (all_gt_boxes st)[mb_idx := GtArray g],
                           last_strlen = length p\<rparr>)))"

text \<open>\<open>for mb_idx, (x, y) in enumerate(valid_set)\<close>, from the index \<open>mb_idx\<close> on.\<close>

fun inference_loop ::
  "('v, 'a, 'd) env \<Rightarrow> 'v built \<Rightarrow> int \<Rightarrow> nat \<Rightarrow> ('v, 'a) minibatch list \<Rightarrow> ('a, 'd) accs
     \<Rightarrow> ('v, 'a, 'd) event list \<times> (py_error + ('a, 'd) accs)" where
  "inference_loop env su num_images mb_idx [] st = ([], Inr st)"
| "inference_loop env su num_images mb_idx (mb # mbs) st =
     (case loop_body env su num_images mb_idx mb st of
        (ev, Inl e) \<Rightarrow> (ev, Inl e)
      | (ev, Inr st') \<Rightarrow>
          (case inference_loop env su num_images (Suc mb_idx) mbs st' of
             (evs, r) \<Rightarrow> (ev @ evs, r)))"

subsection \<open>The module body\<close>

text \<open>Line 66 to the end, on the arguments as they stand after line 64.\<close>

definition run_resolved ::
  "py_version \<Rightarrow> ('v, 'a, 'd) env \<Rightarrow> args
     \<Rightarrow> ('v, 'a, 'd) event list \<times> (py_error + ('a, 'd) accs)" where
  "run_resolved v env a =
     (case check_args a of
        Some e \<Rightarrow> ([ParseArgs], Inl e)
      | None \<Rightarrow>
          (let su = build_setup env a;
               ev0 = ParseArgs # setup_events env a;
               num_images = ndata env (su_valid_set su);
               boxes0 = init_all_boxes (su_num_classes su) num_images
           in case init_all_gt_boxes v num_images of
                Inl e \<Rightarrow> (ev0, Inl e)
              | Inr gt0 \<Rightarrow>
                  (case inference_loop env su num_images 0 (iterate env (su_valid_set su))
                          \<lparr>all_boxes = boxes0, all_gt_boxes = gt0, last_strlen = 0\<rparr> of
                     (evs, Inl e) \<Rightarrow> (ev0 @ evs, Inl e)
                   | (evs, Inr st) \<Rightarrow>
                       (ev0 @ evs @
                          [LoggerDisplay ''Evaluating detections'',
                           VocEval (all_boxes st) (all_gt_boxes st)
                             (CLASSES env (su_valid_set su)) True],
                        Inr st))))"

definition script ::
  "py_version \<Rightarrow> ('v, 'a, 'd) env \<Rightarrow> args
     \<Rightarrow> ('v, 'a, 'd) event list \<times> (py_error + ('a, 'd) accs)" where
  "script v env args0 = run_resolved v env (resolve_output_dir args0)"

subsection \<open>Reading a run\<close>

text \<open>The data set, its images and the model of a run.\<close>

definition run_built :: "('v, 'a, 'd) env \<Rightarrow> args \<Rightarrow> 'v built" where
  "run_built env a = build_setup env (resolve_output_dir a)"

definition run_images :: "('v, 'a, 'd) env \<Rightarrow> args \<Rightarrow> ('v, 'a) minibatch list" where
  "run_images env a = iterate env (su_valid_set (run_built env a))"

definition run_num_images :: "('v, 'a, 'd) env \<Rightarrow> args \<Rightarrow> int" where
  "run_num_images env a = ndata env (su_valid_set (run_built env a))"

text \<open>The model after \<open>load_params\<close> and \<open>initialize\<close> (lines 91 to 95).\<close>

definition loaded_model :: "('v, 'a, 'd) env \<Rightarrow> args \<Rightarrow> 'v" where
  "loaded_model env a =
     (let valid_set = su_valid_set (build_setup env a)
      in initialize env
           (load_params env (fst (build_model env valid_set frcn_rois_per_img True))
              (the (model_file a)))
           valid_set)"

text \<open>The stage of the pipeline a call belongs to.\<close>

fun phase :: "('v, 'a, 'd) event \<Rightarrow> nat" where
  "phase ParseArgs = 0"
| "phase (GenBackend k) = 1"
| "phase (GetDataCacheDir d s) = 2"
| "phase (PascalVocConfig m c w h r i) = 2"
| "phase NewDataLoader = 2"
| "phase NewTypeCast = 2"
| "phase NewBGRMeanSubtract = 2"
| "phase (NewObjectLocalization r) = 2"
| "phase (BuildModel r i) = 3"
| "phase (LoadParams f) = 3"
| "phase Initialize = 3"
| "phase (ScaleBBRegWeights m s k) = 3"
| "phase (StdoutWrite s) = 4"
| "phase StdoutFlush = 4"
| "phase (Fprop m x) = 4"
| "phase GetMetadataBuffers = 4"
| "phase GetProposals = 4"
| "phase (GetBBoxes k m t n) = 4"
| "phase (SetAllBoxes i) = 4"
| "phase (SetAllGtBoxes i) = 4"
| "phase (LoggerDisplay s) = 5"
| "phase (VocEval b g c u) = 5"

fun is_voc_eval :: "('v, 'a, 'd) event \<Rightarrow> bool" where
  "is_voc_eval (VocEval b g c u) = True"
| "is_voc_eval e = False"

fun is_fprop :: "('v, 'a, 'd) event \<Rightarrow> bool" where
  "is_fprop (Fprop m x) = True"
| "is_fprop e = False"

fun is_get_bboxes :: "('v, 'a, 'd) event \<Rightarrow> bool" where
  "is_get_bboxes (GetBBoxes k m t n) = True"
| "is_get_bboxes e = False"

fun is_scale :: "('v, 'a, 'd) event \<Rightarrow> bool" where
  "is_scale (ScaleBBRegWeights m s k) = True"
| "is_scale e = False"

text \<open>What a run writes: standard output and the logger.\<close>

fun is_output :: "('v, 'a, 'd) event \<Rightarrow> bool" where
  "is_output (StdoutWrite s) = True"
| "is_output StdoutFlush = True"
| "is_output (LoggerDisplay s) = True"
| "is_output e = False"

text \<open>The calls of one iteration that ends normally, and of the iterations from an index on.\<close>

definition iteration_events ::
  "('v, 'a, 'd) env \<Rightarrow> 'v built \<Rightarrow> int \<Rightarrow> nat \<Rightarrow> nat \<Rightarrow> ('v, 'a) minibatch
     \<Rightarrow> ('v, 'a, 'd) event list" where
  "iteration_events env su num_images prev_len mb_idx mb =
     [StdoutWrite (erase_str prev_len), StdoutWrite (prt_str mb_idx num_images), StdoutFlush,
      Fprop (su_model su) (mb_x mb), GetMetadataBuffers, GetProposals,
      GetBBoxes (num_classes env (su_valid_set su)) max_per_image thresh nms_thresh,
      SetAllBoxes mb_idx, SetAllGtBoxes mb_idx]"

fun loop_events ::
  "('v, 'a, 'd) env \<Rightarrow> 'v built \<Rightarrow> int \<Rightarrow> nat \<Rightarrow> nat \<Rightarrow> ('v, 'a) minibatch list
     \<Rightarrow> ('v, 'a, 'd) event list" where
  "loop_events env su num_images prev_len mb_idx [] = []"
| "loop_events env su num_images prev_len mb_idx (mb # mbs) =
     iteration_events env su num_images prev_len mb_idx mb
     @ loop_events env su num_images (length (prt_str mb_idx num_images)) (Suc mb_idx) mbs"

text \<open>The length of the progress line that the iteration with index \<open>i\<close> erases.\<close>

definition prev_strlen :: "int \<Rightarrow> nat \<Rightarrow> nat" where
  "prev_strlen num_images i = (if i = 0 then 0 else length (prt_str (i - 1) num_images))"

text \<open>The detections of one image (line 142).\<close>

definition image_boxes :: "('v, 'a, 'd) env \<Rightarrow> 'v built \<Rightarrow> ('v, 'a) minibatch \<Rightarrow> 'd list list" where
  "image_boxes env su mb =
     get_bboxes env (fprop env (su_model su) (mb_x mb))
       (get_proposals env (su_proposalLayer su) (su_model su) (mb_x mb))
       (num_classes env (su_valid_set su)) (im_shape mb) (im_scale mb)
       max_per_image thresh nms_thresh"

subsection \<open>A small library and a command line\<close>

text \<open>
  A library over numbers, with a data set of two images and two classes, to run the
  script on: library objects are naturals, buffer cells are integers with integer
  division.
\<close>

definition example_images :: "(nat, int) minibatch list" where
  "example_images =
     [\<lparr>mb_x = 5, mb_y = 0, im_shape = 7, im_scale = 2,
       gt_boxes = \<lparr>ncols = 4, rws = [[2, 4, 6, 8], [0, 0, 0, 0]]\<rparr>,
       gt_classes = \<lparr>ncols = 1, rws = [[3], [0]]\<rparr>,
       num_gt_boxes = 1,
       difficult = \<lparr>ncols = 1, rws = [[0], [0]]\<rparr>\<rparr>,
      \<lparr>mb_x = 6, mb_y = 0, im_shape = 7, im_scale = 1,
       gt_boxes = \<lparr>ncols = 4, rws = [[1, 1, 5, 5], [2, 2, 9, 9]]\<rparr>,
       gt_classes = \<lparr>ncols = 1, rws = [[1], [2]]\<rparr>,
       num_gt_boxes = 2,
       difficult = \<lparr>ncols = 1, rws = [[0], [1]]\<rparr>\<rparr>]"

definition example_env :: "(nat, int, nat) env" where
  "example_env =
     \<lparr>extract_valid_args = (\<lambda>a. nat (batch_size a)),
      gen_backend = (\<lambda>k. k),
      get_data_cache_dir = os_path_join,
      PASCALVOC = (\<lambda>m c w h r i. 0),
      DataLoader = (\<lambda>c b. 0),
      TypeCast = (\<lambda>d. d),
      BGRMeanSubtract = (\<lambda>d. d),
      ObjectLocalization = (\<lambda>d r. 0),
      num_classes = (\<lambda>s. 2),
      ndata = (\<lambda>s. 2),
      CLASSES = (\<lambda>s. 0),
      iterate = (\<lambda>s. example_images),
      build_model = (\<lambda>s r i. (1, 2)),
      load_params = (\<lambda>m f. m),
      initialize = (\<lambda>m s. m),
      scale_bbreg_weights = (\<lambda>m mu sd k. m + 10),
      fprop = (\<lambda>m x. m + x),
      get_proposals = (\<lambda>p m x. (x, 1)),
      get_bboxes = (\<lambda>out p k sh sc mx t nt. [[out], []]),
      fdiv = (\<lambda>x y. x div y),
      of_bool_cell = (\<lambda>b. if b then 1 else 0)\<rparr>"

definition example_args :: args where
  "example_args =
     \<lparr>model_file = Some ''faster_rcnn.pkl'',
      manifest = [''val'' \<mapsto> ''val.csv''],
      batch_size = 1,
      normalize = True,
      output_dir = None,
      data_dir = ''/data'',
      width = 1000,
      height = 1000\<rparr>"

text \<open>The accumulators at the end of the run on \<open>example_args\<close>.\<close>

definition example_accs :: "(int, nat) accs" where
  "example_accs =
     \<lparr>all_boxes = [[[16], []], [[17], []]],
      all_gt_boxes =
        [GtArray \<lparr>ncols = 7, rws = [[1, 2, 3, 4, 3, 0, 0]]\<rparr>,
         GtArray \<lparr>ncols = 7, rws = [[1, 1, 5, 5, 1, 0, 0], [2, 2, 9, 9, 2, 1, 0]]\<rparr>],
      last_strlen = 15\<rparr>"

section \<open>Properties\<close>

subsection \<open>The loop\<close>

lemma check_args_resolve: "check_args (resolve_output_dir a) = check_args a"
  by (cases "output_dir a") (simp_all add: check_args_def resolve_output_dir_def)

lemma loop_body_Inr:
  assumes "loop_body env su n i mb st = (ev, Inr st')"
  shows "ev = iteration_events env su n (last_strlen st) i mb"
    and "i < length (all_boxes st)" and "i < length (all_gt_boxes st)"
    and "\<exists>g. assemble_gt env mb = Inr g \<and>
           st' = \<lparr>all_boxes = (all_boxes st)[i := image_boxes env su mb],
                 all_gt_boxes = (all_gt_boxes st)[i := GtArray g],
                 last_strlen = length (prt_str i n)\<rparr>"
  using assms
  by (auto simp: loop_body_def Let_def iteration_events_def image_boxes_def
           split: if_splits sum.splits)

lemma loop_body_phase:
  "e \<in> set (fst (loop_body env su n i mb st)) \<Longrightarrow> phase e = 4"
  by (auto simp: loop_body_def Let_def split: if_splits sum.splits)

lemma loop_body_fprop:
  "Fprop m x \<in> set (fst (loop_body env su n i mb st)) \<Longrightarrow> m = su_model su"
  by (auto simp: loop_body_def Let_def split: if_splits sum.splits)

lemma inference_loop_events:
  "inference_loop env su n i mbs st = (evs, Inr st') \<Longrightarrow>
     evs = loop_events env su n (last_strlen st) i mbs"
proof (induction mbs arbitrary: i st evs)
  case Nil
  then show ?case by simp
next
  case (Cons mb mbs)
  from Cons.prems obtain ev st1 evs1 where
    b: "loop_body env su n i mb st = (ev, Inr st1)" and
    r: "inference_loop env su n (Suc i) mbs st1 = (evs1, Inr st')" and
    e: "evs = ev @ evs1"
    by (auto split: prod.splits sum.splits)
  from loop_body_Inr(1)[OF b] loop_body_Inr(4)[OF b] Cons.IH[OF r] e
  show ?case by auto
qed

lemma inference_loop_all:
  assumes P: "\<And>i mb st e. e \<in> set (fst (loop_body env su n i mb st)) \<Longrightarrow> P e"
  shows "e \<in> set (fst (inference_loop env su n i mbs st)) \<Longrightarrow> P e"
proof (induction mbs arbitrary: i st)
  case Nil
  then show ?case by simp
next
  case (Cons mb mbs)
  obtain ev r where b: "loop_body env su n i mb st = (ev, r)"
    by (cases "loop_body env su n i mb st")
  show ?case
  proof (cases r)
    case (Inl err)
    with b Cons.prems have "e \<in> set ev" by simp
    with P[of e i mb st] b show ?thesis by simp
  next
    case (Inr st1)
    obtain evs r2 where l: "inference_loop env su n (Suc i) mbs st1 = (evs, r2)"
      by (cases "inference_loop env su n (Suc i) mbs st1")
    with b Inr Cons.prems have "e \<in> set ev \<or> e \<in> set evs" by simp
    then show ?thesis
    proof
      assume "e \<in> set ev"
      with P[of e i mb st] b show ?thesis by simp
    next
      assume "e \<in> set evs"
      with Cons.IH[of "Suc i" st1] l show ?thesis by simp
    qed
  qed
qed

lemma inference_loop_phase:
  "e \<in> set (fst (inference_loop env su n i mbs st)) \<Longrightarrow> phase e = 4"
  by (rule inference_loop_all[where P = "\<lambda>e. phase e = 4"]) (auto dest: loop_body_phase)

lemma inference_loop_fprop:
  "Fprop m x \<in> set (fst (inference_loop env su n i mbs st)) \<Longrightarrow> m = su_model su"
  using inference_loop_all[where P = "\<lambda>e. \<forall>m x. e = Fprop m x \<longrightarrow> m = su_model su"
      and e = "Fprop m x" and env = env and su = su and n = n and i = i and mbs = mbs and st = st]
  by (auto dest: loop_body_fprop)


lemma inference_loop_accs:
  "inference_loop env su n i mbs st = (evs, Inr st') \<Longrightarrow>
     length (all_boxes st') = length (all_boxes st) \<and>
     length (all_gt_boxes st') = length (all_gt_boxes st) \<and>
     length mbs \<le> length (all_boxes st) - i \<and>
     length mbs \<le> length (all_gt_boxes st) - i \<and>
     (\<forall>j. j < i \<or> i + length mbs \<le> j \<longrightarrow>
        all_boxes st' ! j = all_boxes st ! j \<and> all_gt_boxes st' ! j = all_gt_boxes st ! j) \<and>
     (\<forall>k < length mbs.
        all_boxes st' ! (i + k) = image_boxes env su (mbs ! k) \<and>
        assemble_gt env (mbs ! k) = Inr (case all_gt_boxes st' ! (i + k) of GtArray g \<Rightarrow> g) \<and>
        all_gt_boxes st' ! (i + k) \<noteq> EmptyList)"
proof (induction mbs arbitrary: i st evs)
  case Nil
  then show ?case by simp
next
  case (Cons mb mbs)
  from Cons.prems obtain ev st1 evs1 where
    b: "loop_body env su n i mb st = (ev, Inr st1)" and
    r: "inference_loop env su n (Suc i) mbs st1 = (evs1, Inr st')"
    by (auto split: prod.splits sum.splits)
  from loop_body_Inr(4)[OF b] obtain g where
    g: "assemble_gt env mb = Inr g" and
    st1: "st1 = \<lparr>all_boxes = (all_boxes st)[i := image_boxes env su mb],
                 all_gt_boxes = (all_gt_boxes st)[i := GtArray g],
                 last_strlen = length (prt_str i n)\<rparr>"
    by blast
  note ib = loop_body_Inr(2)[OF b] and ig = loop_body_Inr(3)[OF b]
  note IH = Cons.IH[OF r]
  have len: "length (all_boxes st') = length (all_boxes st)"
       "length (all_gt_boxes st') = length (all_gt_boxes st)"
    using IH st1 by simp_all
  have l1: "length (all_boxes st1) = length (all_boxes st)"
       "length (all_gt_boxes st1) = length (all_gt_boxes st)"
    using st1 by simp_all
  have b1: "length mbs \<le> length (all_boxes st1) - Suc i"
       "length mbs \<le> length (all_gt_boxes st1) - Suc i"
    using IH by blast+
  have bnd: "length (mb # mbs) \<le> length (all_boxes st) - i"
       "length (mb # mbs) \<le> length (all_gt_boxes st) - i"
    using b1 l1 ib ig by simp_all
  have IHf: "all_boxes st' ! j = all_boxes st1 ! j \<and> all_gt_boxes st' ! j = all_gt_boxes st1 ! j"
    if "j < Suc i \<or> Suc i + length mbs \<le> j" for j
    using IH that by blast
  have IHc: "all_boxes st' ! (Suc i + k) = image_boxes env su (mbs ! k) \<and>
        assemble_gt env (mbs ! k) = Inr (case all_gt_boxes st' ! (Suc i + k) of GtArray g \<Rightarrow> g) \<and>
        all_gt_boxes st' ! (Suc i + k) \<noteq> EmptyList"
    if "k < length mbs" for k
    using IH that by blast
  have upd: "all_boxes st1 ! j = all_boxes st ! j \<and> all_gt_boxes st1 ! j = all_gt_boxes st ! j"
    if "j \<noteq> i" for j
    using st1 that by simp
  have frame: "all_boxes st' ! j = all_boxes st ! j \<and> all_gt_boxes st' ! j = all_gt_boxes st ! j"
    if "j < i \<or> i + length (mb # mbs) \<le> j" for j
  proof -
    from that have "j < Suc i \<or> Suc i + length mbs \<le> j" and "j \<noteq> i" by auto
    with IHf[of j] upd[of j] show ?thesis by simp
  qed
  have at_i: "all_boxes st' ! i = image_boxes env su mb \<and> all_gt_boxes st' ! i = GtArray g"
  proof -
    have "all_boxes st' ! i = all_boxes st1 ! i \<and> all_gt_boxes st' ! i = all_gt_boxes st1 ! i"
      using IHf[of i] by simp
    with st1 ib ig show ?thesis by simp
  qed
  have content: "all_boxes st' ! (i + k) = image_boxes env su ((mb # mbs) ! k) \<and>
        assemble_gt env ((mb # mbs) ! k) = Inr (case all_gt_boxes st' ! (i + k) of GtArray g \<Rightarrow> g) \<and>
        all_gt_boxes st' ! (i + k) \<noteq> EmptyList"
    if "k < length (mb # mbs)" for k
  proof (cases k)
    case 0
    with at_i g show ?thesis by simp
  next
    case (Suc k')
    with that have "k' < length mbs" by simp
    with IHc[of k'] Suc show ?thesis by simp
  qed
  from len bnd frame content show ?case by blast
qed

lemma run_resolved_Inr:
  assumes "run_resolved v env a = (tr, Inr st)"
  shows "v = Python2" and "check_args a = None"
    and "\<exists>evs. inference_loop env (build_setup env a) (ndata env (su_valid_set (build_setup env a))) 0
             (iterate env (su_valid_set (build_setup env a)))
             \<lparr>all_boxes = init_all_boxes (su_num_classes (build_setup env a))
                            (ndata env (su_valid_set (build_setup env a))),
              all_gt_boxes = replicate (nat (ndata env (su_valid_set (build_setup env a)))) EmptyList,
              last_strlen = 0\<rparr> = (evs, Inr st) \<and>
           tr = ParseArgs # setup_events env a @ evs @
                  [LoggerDisplay ''Evaluating detections'',
                   VocEval (all_boxes st) (all_gt_boxes st)
                     (CLASSES env (su_valid_set (build_setup env a))) True]"
  using assms
  by (auto simp: run_resolved_def Let_def init_all_gt_boxes_def
           split: option.splits sum.splits prod.splits py_version.splits)

subsection \<open>The module body\<close>

lemma resolve_output_dir_fields:
  "model_file (resolve_output_dir a) = model_file a"
  "manifest (resolve_output_dir a) = manifest a"
  "batch_size (resolve_output_dir a) = batch_size a"
  "normalize (resolve_output_dir a) = normalize a"
  "data_dir (resolve_output_dir a) = data_dir a"
  "width (resolve_output_dir a) = width a"
  "height (resolve_output_dir a) = height a"
  by (cases "output_dir a"; simp add: resolve_output_dir_def)+

lemma run_resolved_python3:
  "check_args a = None \<Longrightarrow>
     run_resolved Python3 env a = (ParseArgs # setup_events env a, Inl (NameError ''xrange''))"
  by (simp add: run_resolved_def Let_def init_all_gt_boxes_def)

lemma run_resolved_trace:
  assumes "check_args a = None"
  shows "\<exists>evs tl. fst (run_resolved v env a) = ParseArgs # setup_events env a @ evs @ tl \<and>
           (\<forall>e \<in> set evs. phase e = 4) \<and>
           (\<forall>m x. Fprop m x \<in> set evs \<longrightarrow> m = su_model (build_setup env a)) \<and>
           (tl = [] \<or> (\<exists>ab ag c. tl = [LoggerDisplay ''Evaluating detections'', VocEval ab ag c True]))"
proof (cases v)
  case Python3
  with assms show ?thesis by (simp add: run_resolved_python3)
next
  case Python2
  define su where "su = build_setup env a"
  define n where "n = ndata env (su_valid_set su)"
  define st0 :: "('b, 'c) accs" where
    "st0 = \<lparr>all_boxes = init_all_boxes (su_num_classes su) n,
            all_gt_boxes = replicate (nat n) EmptyList, last_strlen = 0\<rparr>"
  obtain evs r where l: "inference_loop env su n 0 (iterate env (su_valid_set su)) st0 = (evs, r)"
    by (cases "inference_loop env su n 0 (iterate env (su_valid_set su)) st0")
  have ph: "\<forall>e \<in> set evs. phase e = 4"
    using inference_loop_phase[of _ env su n 0 "iterate env (su_valid_set su)" st0] l by simp
  have fp: "\<forall>m x. Fprop m x \<in> set evs \<longrightarrow> m = su_model su"
    using inference_loop_fprop[of _ _ env su n 0 "iterate env (su_valid_set su)" st0] l by simp
  show ?thesis
  proof (cases r)
    case (Inl err)
    with assms Python2 l have "fst (run_resolved v env a) = ParseArgs # setup_events env a @ evs @ []"
      by (simp add: run_resolved_def Let_def init_all_gt_boxes_def su_def n_def st0_def)
    with ph fp show ?thesis unfolding su_def by blast
  next
    case (Inr st)
    with assms Python2 l have "fst (run_resolved v env a) = ParseArgs # setup_events env a @ evs @
        [LoggerDisplay ''Evaluating detections'',
         VocEval (all_boxes st) (all_gt_boxes st) (CLASSES env (su_valid_set su)) True]"
      by (simp add: run_resolved_def Let_def init_all_gt_boxes_def su_def n_def st0_def)
    with ph fp show ?thesis unfolding su_def by blast
  qed
qed

lemma script_Inr:
  assumes "snd (script v env a) = Inr st"
  shows "v = Python2" and "check_args a = None"
    and "\<exists>evs. inference_loop env (run_built env a) (run_num_images env a) 0 (run_images env a)
             \<lparr>all_boxes = init_all_boxes (su_num_classes (run_built env a)) (run_num_images env a),
              all_gt_boxes = replicate (nat (run_num_images env a)) EmptyList,
              last_strlen = 0\<rparr> = (evs, Inr st) \<and>
           fst (script v env a) = ParseArgs # setup_events env (resolve_output_dir a) @ evs @
                  [LoggerDisplay ''Evaluating detections'',
                   VocEval (all_boxes st) (all_gt_boxes st)
                     (CLASSES env (su_valid_set (run_built env a))) True]"
proof -
  obtain tr where r: "run_resolved v env (resolve_output_dir a) = (tr, Inr st)"
    using assms by (cases "run_resolved v env (resolve_output_dir a)") (simp add: script_def)
  from run_resolved_Inr(1)[OF r] show "v = Python2" .
  from run_resolved_Inr(2)[OF r] show "check_args a = None" by (simp add: check_args_resolve)
  from run_resolved_Inr(3)[OF r] r
  show "\<exists>evs. inference_loop env (run_built env a) (run_num_images env a) 0 (run_images env a)
             \<lparr>all_boxes = init_all_boxes (su_num_classes (run_built env a)) (run_num_images env a),
              all_gt_boxes = replicate (nat (run_num_images env a)) EmptyList,
              last_strlen = 0\<rparr> = (evs, Inr st) \<and>
           fst (script v env a) = ParseArgs # setup_events env (resolve_output_dir a) @ evs @
                  [LoggerDisplay ''Evaluating detections'',
                   VocEval (all_boxes st) (all_gt_boxes st)
                     (CLASSES env (su_valid_set (run_built env a))) True]"
    by (simp add: script_def run_built_def run_num_images_def run_images_def)
qed

subsection \<open>Assertions\<close>

text \<open>
  Claim C1. When the model file is missing, the manifest has no \<open>val\<close> entry or the batch
  size is not 1, the run ends with an AssertionError and has done nothing but parse the
  arguments: the backend is not built, no data is loaded, nothing is retried.
\<close>

theorem invalid_configuration_aborts:
  assumes "model_file a = None \<or> manifest a ''val'' = None \<or> batch_size a \<noteq> 1"
  shows "\<exists>msg. script v env a = ([ParseArgs], Inl (AssertionError msg))"
proof -
  have "\<exists>msg. check_args a = Some (AssertionError msg)"
    using assms unfolding check_args_def
    by (cases "model_file a = None"; cases "manifest a ''val'' = None"; simp)
  then obtain msg where "check_args a = Some (AssertionError msg)" ..
  then have "check_args (resolve_output_dir a) = Some (AssertionError msg)"
    by (simp add: check_args_resolve)
  then show ?thesis by (simp add: script_def run_resolved_def)
qed

theorem invalid_configuration_aborts_witness:
  "batch_size (example_args\<lparr>batch_size := 2\<rparr>) \<noteq> 1 \<and>
   (\<exists>msg. script Python2 example_env (example_args\<lparr>batch_size := 2\<rparr>)
            = ([ParseArgs], Inl (AssertionError msg)))"
  using invalid_configuration_aborts[of "example_args\<lparr>batch_size := 2\<rparr>" Python2 example_env]
  by simp

subsection \<open>The output directory\<close>

lemma resolve_output_dir_eq:
  "resolve_output_dir a =
     a\<lparr>output_dir := (case output_dir a of
                        None \<Rightarrow> Some (os_path_join (data_dir a) ''frcn_output'')
                      | Some d \<Rightarrow> Some d)\<rparr>"
  by (cases "output_dir a") (simp_all add: resolve_output_dir_def)

text \<open>
  Claim C6. When \<open>--output_dir\<close> is not given, the script sets \<open>args.output_dir\<close> to
  \<open>os.path.join(args.data_dir, 'frcn_output')\<close>; a value that is given is kept. The rest of
  the script runs on the arguments with this value and nothing else changed.
\<close>

theorem default_output_dir:
  "output_dir (resolve_output_dir a) =
     (case output_dir a of
        None \<Rightarrow> Some (os_path_join (data_dir a) ''frcn_output'')
      | Some d \<Rightarrow> Some d) \<and>
   script v env a =
     run_resolved v env
       (a\<lparr>output_dir := (case output_dir a of
                           None \<Rightarrow> Some (os_path_join (data_dir a) ''frcn_output'')
                         | Some d \<Rightarrow> Some d)\<rparr>) \<and>
   os_path_join (data_dir a) ''frcn_output'' =
     (if data_dir a = [] \<or> last (data_dir a) = CHR ''/''
      then data_dir a @ ''frcn_output'' else data_dir a @ ''/frcn_output'')"
proof -
  have "output_dir (resolve_output_dir a) =
     (case output_dir a of
        None \<Rightarrow> Some (os_path_join (data_dir a) ''frcn_output'')
      | Some d \<Rightarrow> Some d)"
    by (cases "output_dir a") (simp_all add: resolve_output_dir_def)
  moreover have "script v env a =
     run_resolved v env
       (a\<lparr>output_dir := (case output_dir a of
                           None \<Rightarrow> Some (os_path_join (data_dir a) ''frcn_output'')
                         | Some d \<Rightarrow> Some d)\<rparr>)"
    unfolding script_def using resolve_output_dir_eq[of a] by simp
  moreover have "os_path_join (data_dir a) ''frcn_output'' =
     (if data_dir a = [] \<or> last (data_dir a) = CHR ''/''
      then data_dir a @ ''frcn_output'' else data_dir a @ ''/frcn_output'')"
    by (simp add: os_path_join_def)
  ultimately show ?thesis by blast
qed

theorem default_output_dir_witness:
  "output_dir (resolve_output_dir example_args) = Some ''/data/frcn_output'' \<and>
   output_dir (resolve_output_dir (example_args\<lparr>output_dir := Some ''/tmp/ap''\<rparr>)) = Some ''/tmp/ap''"
  using default_output_dir[of example_args, THEN conjunct1]
    default_output_dir[of "example_args\<lparr>output_dir := Some ''/tmp/ap''\<rparr>", THEN conjunct1]
  by (simp add: example_args_def os_path_join_def)

lemma build_setup_output_dir:
  assumes "\<forall>b d. extract_valid_args env (b\<lparr>output_dir := d\<rparr>) = extract_valid_args env b"
  shows "build_setup env (a\<lparr>output_dir := d\<rparr>) = build_setup env a"
    and "setup_events env (a\<lparr>output_dir := d\<rparr>) = setup_events env a"
    and "check_args (a\<lparr>output_dir := d\<rparr>) = check_args a"
  using assms by (simp_all add: build_setup_def build_valid_set_def setup_events_def check_args_def)

text \<open>
  Claim C9. The value of \<open>args.output_dir\<close> after line 64 is never read: whatever it is,
  the run performs the same calls with the same arguments, writes the same output and ends
  the same way, so nothing is created under that directory. The namespace \<open>args\<close> itself is
  handed to \<open>extract_valid_args\<close>, which keeps the arguments that \<open>gen_backend\<close> accepts;
  \<open>output_dir\<close> is not among them, which is the hypothesis.
\<close>

theorem output_dir_never_read:
  assumes "\<forall>b d. extract_valid_args env (b\<lparr>output_dir := d\<rparr>) = extract_valid_args env b"
  shows "run_resolved v env (a\<lparr>output_dir := d\<rparr>) = run_resolved v env a \<and>
         script v env (a\<lparr>output_dir := d\<rparr>) = script v env a"
proof -
  have r: "run_resolved v env (b\<lparr>output_dir := d'\<rparr>) = run_resolved v env b" for b d'
    by (simp only: run_resolved_def build_setup_output_dir[OF assms])
  have "script v env b = run_resolved v env b" for b
    unfolding script_def using resolve_output_dir_eq[of b] r[where b = b] by simp
  with r show ?thesis by simp
qed

theorem output_dir_never_read_witness:
  "(\<forall>b d. extract_valid_args example_env (b\<lparr>output_dir := d\<rparr>) = extract_valid_args example_env b) \<and>
   script Python2 example_env (example_args\<lparr>output_dir := Some ''/tmp/ap''\<rparr>)
     = script Python2 example_env example_args"
proof -
  have h: "\<forall>b d. extract_valid_args example_env (b\<lparr>output_dir := d\<rparr>) = extract_valid_args example_env b"
    by (simp add: example_env_def)
  from h output_dir_never_read[OF h] show ?thesis by blast
qed

subsection \<open>The interpreter version\<close>

lemma filter_fprop_setup_events: "filter is_fprop (setup_events env a) = []"
  by (simp add: setup_events_def)

text \<open>
  Claim C8. Under Python 3 a run whose arguments pass the assertions ends with
  \<open>NameError\<close> for \<open>xrange\<close> at line 117, before any forward pass; a run that performs a
  forward pass is a run under Python 2.
\<close>

theorem python3_name_error:
  assumes "check_args a = None"
  shows "snd (script Python3 env a) = Inl (NameError ''xrange'') \<and>
         filter is_fprop (fst (script Python3 env a)) = [] \<and>
         (\<forall>v. filter is_fprop (fst (script v env a)) \<noteq> [] \<longrightarrow> v = Python2)"
proof -
  from assms have c: "check_args (resolve_output_dir a) = None"
    by (simp add: check_args_resolve)
  have r: "script Python3 env a =
      (ParseArgs # setup_events env (resolve_output_dir a), Inl (NameError ''xrange''))"
    unfolding script_def by (rule run_resolved_python3[OF c])
  have f: "filter is_fprop (fst (script Python3 env a)) = []"
    by (simp add: r filter_fprop_setup_events)
  have "v = Python2" if "filter is_fprop (fst (script v env a)) \<noteq> []" for v
    using that f by (cases v) simp_all
  with r f show ?thesis by simp
qed

theorem python3_name_error_witness:
  "check_args example_args = None \<and>
   snd (script Python3 example_env example_args) = Inl (NameError ''xrange'') \<and>
   filter is_fprop (fst (script Python3 example_env example_args)) = [] \<and>
   filter is_fprop (fst (script Python2 example_env example_args)) = [Fprop 11 5, Fprop 11 6]"
proof -
  have c: "check_args example_args = None" by code_simp
  have "filter is_fprop (fst (script Python2 example_env example_args)) = [Fprop 11 5, Fprop 11 6]"
    by code_simp
  with c python3_name_error[OF c, of example_env] show ?thesis by simp
qed

subsection \<open>Normalisation of the bounding-box regression layer\<close>

lemma build_setup_fields:
  "su_valid_set (build_setup env a) = build_valid_set env a (gen_backend env (extract_valid_args env a))"
  "su_num_classes (build_setup env a) = num_classes env (su_valid_set (build_setup env a))"
  "su_model (build_setup env a) =
     (if normalize a
      then scale_bbreg_weights env (loaded_model env a)
             [FloatLit ''0.0'', FloatLit ''0.0'', FloatLit ''0.0'', FloatLit ''0.0'']
             [FloatLit ''0.1'', FloatLit ''0.1'', FloatLit ''0.2'', FloatLit ''0.2'']
             (num_classes env (su_valid_set (build_setup env a)))
      else loaded_model env a)"
  by (simp_all add: build_setup_def loaded_model_def Let_def split_def)

lemma filter_scale_setup_events:
  "filter is_scale (setup_events env a) =
     (if normalize a
      then [ScaleBBRegWeights
              [FloatLit ''0.0'', FloatLit ''0.0'', FloatLit ''0.0'', FloatLit ''0.0'']
              [FloatLit ''0.1'', FloatLit ''0.1'', FloatLit ''0.2'', FloatLit ''0.2'']
              (num_classes env (su_valid_set (build_setup env a)))]
      else [])"
  by (simp add: setup_events_def build_setup_fields(1))

lemma is_scale_phase: "is_scale e \<Longrightarrow> phase e = 3"
  by (cases e) simp_all

lemma filter_scale_loop: "\<forall>e \<in> set evs. phase e = 4 \<Longrightarrow> filter is_scale evs = []"
  by (auto simp: filter_empty_conv dest: is_scale_phase)

lemma Fprop_setup_events: "Fprop m x \<notin> set (setup_events env a)"
  by (simp add: setup_events_def)

text \<open>
  Claim C4. In a run whose arguments pass the assertions, \<open>util.scale_bbreg_weights\<close> is
  called, once, with the means \<open>[0.0, 0.0, 0.0, 0.0]\<close>, the standard deviations
  \<open>[0.1, 0.1, 0.2, 0.2]\<close> and the number of classes, exactly when \<open>--normalize\<close> is given.
  The model of the forward passes is then the scaled model; without the flag it is the
  model as loaded and initialised.
\<close>

theorem normalize_flag:
  assumes "check_args a = None"
  shows "filter is_scale (fst (script v env a)) =
           (if normalize a
            then [ScaleBBRegWeights
                    [FloatLit ''0.0'', FloatLit ''0.0'', FloatLit ''0.0'', FloatLit ''0.0'']
                    [FloatLit ''0.1'', FloatLit ''0.1'', FloatLit ''0.2'', FloatLit ''0.2'']
                    (num_classes env (su_valid_set (run_built env a)))]
            else []) \<and>
         su_model (run_built env a) =
           (if normalize a
            then scale_bbreg_weights env (loaded_model env (resolve_output_dir a))
                   [FloatLit ''0.0'', FloatLit ''0.0'', FloatLit ''0.0'', FloatLit ''0.0'']
                   [FloatLit ''0.1'', FloatLit ''0.1'', FloatLit ''0.2'', FloatLit ''0.2'']
                   (num_classes env (su_valid_set (run_built env a)))
            else loaded_model env (resolve_output_dir a)) \<and>
         (\<forall>m x. Fprop m x \<in> set (fst (script v env a)) \<longrightarrow> m = su_model (run_built env a))"
proof -
  let ?a = "resolve_output_dir a"
  from assms have c: "check_args ?a = None" by (simp add: check_args_resolve)
  from run_resolved_trace[OF c, of v env] obtain evs tl where
    tr: "fst (script v env a) = ParseArgs # setup_events env ?a @ evs @ tl" and
    ph: "\<forall>e \<in> set evs. phase e = 4" and
    fp: "\<forall>m x. Fprop m x \<in> set evs \<longrightarrow> m = su_model (build_setup env ?a)" and
    tl: "tl = [] \<or> (\<exists>ab ag c. tl = [LoggerDisplay ''Evaluating detections'', VocEval ab ag c True])"
    unfolding script_def by blast
  from tl have tls: "filter is_scale tl = []" and tlf: "\<forall>m x. Fprop m x \<notin> set tl" by auto
  have "filter is_scale (fst (script v env a)) = filter is_scale (setup_events env ?a)"
    by (simp add: tr filter_scale_loop[OF ph] tls)
  then have 1: "filter is_scale (fst (script v env a)) =
           (if normalize a
            then [ScaleBBRegWeights
                    [FloatLit ''0.0'', FloatLit ''0.0'', FloatLit ''0.0'', FloatLit ''0.0'']
                    [FloatLit ''0.1'', FloatLit ''0.1'', FloatLit ''0.2'', FloatLit ''0.2'']
                    (num_classes env (su_valid_set (run_built env a)))]
            else [])"
    by (simp add: filter_scale_setup_events run_built_def resolve_output_dir_fields)
  have 2: "su_model (run_built env a) =
           (if normalize a
            then scale_bbreg_weights env (loaded_model env ?a)
                   [FloatLit ''0.0'', FloatLit ''0.0'', FloatLit ''0.0'', FloatLit ''0.0'']
                   [FloatLit ''0.1'', FloatLit ''0.1'', FloatLit ''0.2'', FloatLit ''0.2'']
                   (num_classes env (su_valid_set (run_built env a)))
            else loaded_model env ?a)"
    unfolding run_built_def by (simp add: build_setup_fields(3) resolve_output_dir_fields)
  have 3: "m = su_model (run_built env a)" if "Fprop m x \<in> set (fst (script v env a))" for m x
  proof -
    from that tr tlf Fprop_setup_events[of m x env ?a] have "Fprop m x \<in> set evs" by auto
    with fp show ?thesis unfolding run_built_def by blast
  qed
  from 1 2 3 show ?thesis by blast
qed

theorem normalize_flag_witness:
  "check_args example_args = None \<and>
   filter is_scale (fst (script Python2 example_env example_args)) =
     [ScaleBBRegWeights
        [FloatLit ''0.0'', FloatLit ''0.0'', FloatLit ''0.0'', FloatLit ''0.0'']
        [FloatLit ''0.1'', FloatLit ''0.1'', FloatLit ''0.2'', FloatLit ''0.2''] 2] \<and>
   check_args (example_args\<lparr>normalize := False\<rparr>) = None \<and>
   filter is_scale (fst (script Python2 example_env (example_args\<lparr>normalize := False\<rparr>))) = [] \<and>
   su_model (run_built example_env (example_args\<lparr>normalize := False\<rparr>))
     = loaded_model example_env (resolve_output_dir (example_args\<lparr>normalize := False\<rparr>))"
proof -
  have c1: "check_args example_args = None" by code_simp
  have c2: "check_args (example_args\<lparr>normalize := False\<rparr>) = None" by code_simp
  have n1: "normalize example_args" by code_simp
  have k: "num_classes example_env (su_valid_set (run_built example_env example_args)) = 2"
    by (simp add: example_env_def)
  from normalize_flag[OF c1, of Python2 example_env] n1 k
  have "filter is_scale (fst (script Python2 example_env example_args)) =
     [ScaleBBRegWeights
        [FloatLit ''0.0'', FloatLit ''0.0'', FloatLit ''0.0'', FloatLit ''0.0'']
        [FloatLit ''0.1'', FloatLit ''0.1'', FloatLit ''0.2'', FloatLit ''0.2''] 2]"
    by simp
  with c1 c2 normalize_flag[OF c2, of Python2 example_env] show ?thesis by simp
qed

subsection \<open>The calls of a run that ends normally\<close>

lemma script_trace:
  assumes "snd (script v env a) = Inr st"
  shows "fst (script v env a) =
           ParseArgs # setup_events env (resolve_output_dir a)
           @ loop_events env (run_built env a) (run_num_images env a) 0 0 (run_images env a)
           @ [LoggerDisplay ''Evaluating detections'',
              VocEval (all_boxes st) (all_gt_boxes st)
                (CLASSES env (su_valid_set (run_built env a))) True]"
proof -
  from script_Inr(3)[OF assms] obtain evs where
    l: "inference_loop env (run_built env a) (run_num_images env a) 0 (run_images env a)
             \<lparr>all_boxes = init_all_boxes (su_num_classes (run_built env a)) (run_num_images env a),
              all_gt_boxes = replicate (nat (run_num_images env a)) EmptyList,
              last_strlen = 0\<rparr> = (evs, Inr st)" and
    t: "fst (script v env a) = ParseArgs # setup_events env (resolve_output_dir a) @ evs @
                  [LoggerDisplay ''Evaluating detections'',
                   VocEval (all_boxes st) (all_gt_boxes st)
                     (CLASSES env (su_valid_set (run_built env a))) True]"
    by blast
  from inference_loop_events[OF l] t show ?thesis by simp
qed

lemma phase_setup_events:
  "map phase (setup_events env a) = 1 # replicate 6 2 @ replicate (if normalize a then 4 else 3) 3"
  by (simp add: setup_events_def eval_nat_numeral)

lemma phase_iteration_events:
  "map phase (iteration_events env su n l i mb) = replicate 9 4"
  by (simp add: iteration_events_def eval_nat_numeral)

lemma phase_loop_events:
  "map phase (loop_events env su n l i mbs) = replicate (9 * length mbs) 4"
proof (induction mbs arbitrary: l i)
  case Nil
  show ?case by simp
next
  case (Cons mb mbs)
  have "replicate (9 * length (mb # mbs)) (4::nat) = replicate 9 4 @ replicate (9 * length mbs) 4"
    by (simp add: replicate_add[symmetric])
  with Cons show ?case by (simp add: phase_iteration_events)
qed

lemma passes_loop_events:
  "filter (\<lambda>e. is_fprop e \<or> is_get_bboxes e) (loop_events env su n l i mbs) =
     concat (map (\<lambda>mb. [Fprop (su_model su) (mb_x mb),
                         GetBBoxes (num_classes env (su_valid_set su)) max_per_image thresh nms_thresh])
               mbs)"
  by (induction mbs arbitrary: l i) (simp_all add: iteration_events_def)

lemma passes_setup_events:
  "filter (\<lambda>e. is_fprop e \<or> is_get_bboxes e) (setup_events env a) = []"
  by (simp add: setup_events_def)

lemma voc_eval_phase: "is_voc_eval e \<Longrightarrow> phase e = 5"
  by (cases e) simp_all

lemma voc_eval_setup_events: "filter is_voc_eval (setup_events env a) = []"
  by (simp add: setup_events_def)

lemma voc_eval_loop_events: "filter is_voc_eval (loop_events env su n l i mbs) = []"
  by (induction mbs arbitrary: l i) (simp_all add: iteration_events_def)

lemma sorted_map_const: "\<forall>x \<in> set xs. f x = (c::nat) \<Longrightarrow> sorted (map f xs)"
  by (induction xs) auto

lemma sorted_phase_run_resolved: "sorted (map phase (fst (run_resolved v env a)))"
proof (cases "check_args a")
  case (Some e)
  then show ?thesis by (simp add: run_resolved_def)
next
  case None
  from run_resolved_trace[OF None, of v env] obtain evs tl where
    tr: "fst (run_resolved v env a) = ParseArgs # setup_events env a @ evs @ tl" and
    ph: "\<forall>e \<in> set evs. phase e = 4" and
    tl: "tl = [] \<or> (\<exists>ab ag c. tl = [LoggerDisplay ''Evaluating detections'', VocEval ab ag c True])"
    by blast
  from tl have t5: "\<forall>e \<in> set tl. phase e = 5" by auto
  have s5: "sorted (map phase tl)" by (rule sorted_map_const[OF t5])
  have s4: "sorted (map phase evs)" by (rule sorted_map_const[OF ph])
  have s3: "sorted (map phase (setup_events env a))"
    by (simp add: setup_events_def)
  have b3: "\<forall>e \<in> set (setup_events env a). phase e \<le> 3"
    by (simp add: setup_events_def)
  have A: "sorted (map phase (evs @ tl))"
    using s4 s5 ph t5 by (simp add: sorted_append)
  have B: "\<forall>e \<in> set (evs @ tl). 4 \<le> phase e"
    using ph t5 by auto
  have "phase x \<le> phase y" if "x \<in> set (setup_events env a)" "y \<in> set (evs @ tl)" for x y
  proof -
    from that b3 have "phase x \<le> 3" by blast
    moreover from that B have "4 \<le> phase y" by blast
    ultimately show ?thesis by linarith
  qed
  with s3 A have "sorted (map phase (setup_events env a @ evs @ tl))"
    by (auto simp: sorted_append)
  then show ?thesis by (simp add: tr)
qed

subsection \<open>The run on the small library\<close>

lemma example_run: "snd (script Python2 example_env example_args) = Inr example_accs"
  by code_simp

lemma example_run_facts:
  "run_num_images example_env example_args = 2"
  "run_images example_env example_args = example_images"
  "num_classes example_env (su_valid_set (run_built example_env example_args)) = 2"
  "CLASSES example_env (su_valid_set (run_built example_env example_args)) = 0"
  "su_model (run_built example_env example_args) = 11"
  by (simp_all add: run_num_images_def run_images_def run_built_def example_env_def
      build_setup_def Let_def example_args_def resolve_output_dir_def)

subsection \<open>The pipeline\<close>

text \<open>
  Claim C2, as amended. Every run, also one that an exception ends, performs its calls in
  the order of the pipeline: argument parsing, backend, data loader, model, loop,
  evaluation. A run that ends without an exception goes through all the stages: one
  argument parsing, one backend construction, the six calls that build the data loader,
  the three calls that build, load and initialise the model (and the scaling call under
  \<open>--normalize\<close>), nine calls per image, among them one forward pass and one box decoding
  on that image, and at the end the logger call and one call of \<open>voc_eval\<close>, which is the
  last call of the run. As the claim is stated, for every run, it does not hold: a run
  that an assertion ends calls neither the backend nor \<open>voc_eval\<close>.
\<close>

theorem linear_pipeline:
  "sorted (map phase (fst (script v env a))) \<and>
   (\<forall>st. snd (script v env a) = Inr st \<longrightarrow>
      map phase (fst (script v env a)) =
        0 # 1 # replicate 6 2 @ replicate (if normalize a then 4 else 3) 3
        @ replicate (9 * length (run_images env a)) 4 @ [5, 5] \<and>
      filter (\<lambda>e. is_fprop e \<or> is_get_bboxes e) (fst (script v env a)) =
        concat (map (\<lambda>mb. [Fprop (su_model (run_built env a)) (mb_x mb),
                            GetBBoxes (num_classes env (su_valid_set (run_built env a)))
                              max_per_image thresh nms_thresh])
                  (run_images env a)) \<and>
      filter is_voc_eval (fst (script v env a)) =
        [VocEval (all_boxes st) (all_gt_boxes st)
           (CLASSES env (su_valid_set (run_built env a))) True] \<and>
      last (fst (script v env a)) =
        VocEval (all_boxes st) (all_gt_boxes st)
          (CLASSES env (su_valid_set (run_built env a))) True)"
proof -
  have s: "sorted (map phase (fst (script v env a)))"
    unfolding script_def by (rule sorted_phase_run_resolved)
  have c: "map phase (fst (script v env a)) =
        0 # 1 # replicate 6 2 @ replicate (if normalize a then 4 else 3) 3
        @ replicate (9 * length (run_images env a)) 4 @ [5, 5] \<and>
      filter (\<lambda>e. is_fprop e \<or> is_get_bboxes e) (fst (script v env a)) =
        concat (map (\<lambda>mb. [Fprop (su_model (run_built env a)) (mb_x mb),
                            GetBBoxes (num_classes env (su_valid_set (run_built env a)))
                              max_per_image thresh nms_thresh])
                  (run_images env a)) \<and>
      filter is_voc_eval (fst (script v env a)) =
        [VocEval (all_boxes st) (all_gt_boxes st)
           (CLASSES env (su_valid_set (run_built env a))) True] \<and>
      last (fst (script v env a)) =
        VocEval (all_boxes st) (all_gt_boxes st)
          (CLASSES env (su_valid_set (run_built env a))) True"
    if r: "snd (script v env a) = Inr st" for st
  proof -
    note t = script_trace[OF r]
    have 1: "map phase (fst (script v env a)) =
        0 # 1 # replicate 6 2 @ replicate (if normalize a then 4 else 3) 3
        @ replicate (9 * length (run_images env a)) 4 @ [5, 5]"
      by (simp only: t list.map map_append phase.simps phase_setup_events phase_loop_events
          resolve_output_dir_fields append.simps append_assoc)
    have 2: "filter (\<lambda>e. is_fprop e \<or> is_get_bboxes e) (fst (script v env a)) =
        concat (map (\<lambda>mb. [Fprop (su_model (run_built env a)) (mb_x mb),
                            GetBBoxes (num_classes env (su_valid_set (run_built env a)))
                              max_per_image thresh nms_thresh])
                  (run_images env a))"
      by (simp add: t passes_setup_events passes_loop_events)
    have 3: "filter is_voc_eval (fst (script v env a)) =
        [VocEval (all_boxes st) (all_gt_boxes st)
           (CLASSES env (su_valid_set (run_built env a))) True]"
      by (simp add: t voc_eval_setup_events voc_eval_loop_events)
    have 4: "last (fst (script v env a)) =
        VocEval (all_boxes st) (all_gt_boxes st)
          (CLASSES env (su_valid_set (run_built env a))) True"
      by (simp add: t)
    from 1 2 3 4 show ?thesis by blast
  qed
  from s c show ?thesis by blast
qed

theorem linear_pipeline_witness:
  "sorted (map phase (fst (script Python2 example_env example_args))) \<and>
   snd (script Python2 example_env example_args) = Inr example_accs \<and>
   filter (\<lambda>e. is_fprop e \<or> is_get_bboxes e) (fst (script Python2 example_env example_args)) =
     [Fprop 11 5, GetBBoxes 2 100 (FloatLit ''0.001'') (FloatLit ''0.3''),
      Fprop 11 6, GetBBoxes 2 100 (FloatLit ''0.001'') (FloatLit ''0.3'')] \<and>
   filter is_voc_eval (fst (script Python2 example_env example_args)) =
     [VocEval (all_boxes example_accs) (all_gt_boxes example_accs) 0 True]"
proof -
  note t = linear_pipeline[of Python2 example_env example_args]
  from t have s: "sorted (map phase (fst (script Python2 example_env example_args)))"
    by (rule conjunct1)
  from t example_run
  have "filter (\<lambda>e. is_fprop e \<or> is_get_bboxes e) (fst (script Python2 example_env example_args)) =
        concat (map (\<lambda>mb. [Fprop (su_model (run_built example_env example_args)) (mb_x mb),
                            GetBBoxes (num_classes example_env
                                         (su_valid_set (run_built example_env example_args)))
                              max_per_image thresh nms_thresh])
                  (run_images example_env example_args)) \<and>
      filter is_voc_eval (fst (script Python2 example_env example_args)) =
        [VocEval (all_boxes example_accs) (all_gt_boxes example_accs)
           (CLASSES example_env (su_valid_set (run_built example_env example_args))) True]"
    by blast
  then have "filter (\<lambda>e. is_fprop e \<or> is_get_bboxes e)
               (fst (script Python2 example_env example_args)) =
     [Fprop 11 5, GetBBoxes 2 100 (FloatLit ''0.001'') (FloatLit ''0.3''),
      Fprop 11 6, GetBBoxes 2 100 (FloatLit ''0.001'') (FloatLit ''0.3'')] \<and>
   filter is_voc_eval (fst (script Python2 example_env example_args)) =
     [VocEval (all_boxes example_accs) (all_gt_boxes example_accs) 0 True]"
    by (simp add: example_run_facts example_images_def max_per_image_def thresh_def nms_thresh_def)
  with s example_run show ?thesis by blast
qed

theorem linear_pipeline_counterexample:
  "script Python2 example_env (example_args\<lparr>batch_size := 2\<rparr>) =
     ([ParseArgs], Inl (AssertionError ''Faster-RCNN only supports batch size 1'')) \<and>
   filter is_voc_eval (fst (script Python2 example_env (example_args\<lparr>batch_size := 2\<rparr>))) = []"
  by code_simp

subsection \<open>The accumulators\<close>

text \<open>
  Claim C3. In a run that ends normally, \<open>all_boxes\<close> starts with one entry per image,
  each a list of \<open>num_classes\<close> empty lists (image first, then class), and
  \<open>all_gt_boxes\<close> with one entry per image; the loop started on them ends with
  accumulators of the same outer lengths, and these are the first two arguments of the
  \<open>voc_eval\<close> call that ends the run.
\<close>

theorem accumulators_passed_to_voc_eval:
  fixes env :: "('v, 'a, 'd) env"
  assumes "snd (script v env a) = Inr st"
  shows "length (init_all_boxes (num_classes env (su_valid_set (run_built env a)))
                   (run_num_images env a) 
              :: 'd list list list) = nat (run_num_images env a) \<and>
         (\<forall>i < nat (run_num_images env a).
            length (init_all_boxes (num_classes env (su_valid_set (run_built env a)))
                      (run_num_images env a) ! i :: 'd list list)
              = nat (num_classes env (su_valid_set (run_built env a))) \<and>
            (\<forall>c < nat (num_classes env (su_valid_set (run_built env a))).
               (init_all_boxes (num_classes env (su_valid_set (run_built env a)))
                  (run_num_images env a) ! i ! c :: 'd list) = [])) \<and>
         (\<exists>evs. inference_loop env (run_built env a) (run_num_images env a) 0 (run_images env a)
                  \<lparr>all_boxes = init_all_boxes (num_classes env (su_valid_set (run_built env a)))
                                 (run_num_images env a),
                   all_gt_boxes = replicate (nat (run_num_images env a)) EmptyList,
                   last_strlen = 0\<rparr> = (evs, Inr st)) \<and>
         length (all_boxes st) = nat (run_num_images env a) \<and>
         length (all_gt_boxes st) = nat (run_num_images env a) \<and>
         last (fst (script v env a)) =
           VocEval (all_boxes st) (all_gt_boxes st)
             (CLASSES env (su_valid_set (run_built env a))) True"
proof -
  let ?K = "num_classes env (su_valid_set (run_built env a))"
  let ?N = "run_num_images env a"
  have k: "su_num_classes (run_built env a) = ?K"
    by (simp add: run_built_def build_setup_fields(2))
  from script_Inr(3)[OF assms] obtain evs where
    l: "inference_loop env (run_built env a) ?N 0 (run_images env a)
             \<lparr>all_boxes = init_all_boxes ?K ?N,
              all_gt_boxes = replicate (nat ?N) EmptyList,
              last_strlen = 0\<rparr> = (evs, Inr st)"
    unfolding k by blast
  from inference_loop_accs[OF l]
  have len: "length (all_boxes st) = nat ?N" "length (all_gt_boxes st) = nat ?N"
    by (simp_all add: init_all_boxes_def)
  have la: "last (fst (script v env a)) =
           VocEval (all_boxes st) (all_gt_boxes st) (CLASSES env (su_valid_set (run_built env a))) True"
    by (simp add: script_trace[OF assms])
  have i1: "length (init_all_boxes ?K ?N 
              :: 'd list list list) = nat ?N"
    by (simp add: init_all_boxes_def)
  have i2: "length (init_all_boxes ?K ?N ! i :: 'd list list) = nat ?K \<and>
            (\<forall>c < nat ?K. (init_all_boxes ?K ?N ! i ! c :: 'd list) = [])"
    if "i < nat ?N" for i
    using that by (simp add: init_all_boxes_def)
  from i1 i2 l len la show ?thesis by blast
qed

theorem accumulators_passed_to_voc_eval_witness:
  "snd (script Python2 example_env example_args) = Inr example_accs \<and>
   length (all_boxes example_accs) = 2 \<and>
   length (all_gt_boxes example_accs) = 2 \<and>
   last (fst (script Python2 example_env example_args)) =
     VocEval (all_boxes example_accs) (all_gt_boxes example_accs) 0 True"
proof -
  from accumulators_passed_to_voc_eval[OF example_run]
  have "length (all_boxes example_accs) = nat (run_num_images example_env example_args) \<and>
        length (all_gt_boxes example_accs) = nat (run_num_images example_env example_args) \<and>
        last (fst (script Python2 example_env example_args)) =
          VocEval (all_boxes example_accs) (all_gt_boxes example_accs)
            (CLASSES example_env (su_valid_set (run_built example_env example_args))) True"
    by blast
  with example_run show ?thesis by (simp add: example_run_facts)
qed

subsection \<open>The ground-truth array of an image\<close>

lemma hstack4:
  assumes "hstack [a, b, c, d] = Inr g"
  shows "length (rws a) = length (rws d)" and "length (rws b) = length (rws d)"
    and "length (rws c) = length (rws d)"
    and "ncols g = ncols a + ncols b + ncols c + ncols d"
    and "rws g = map2 (@) (rws a) (map2 (@) (rws b) (map2 (@) (rws c) (rws d)))"
  using assms by (auto split: if_splits)

lemma slice_to_length:
  "length (slice_to n xs) = m \<Longrightarrow> 0 \<le> n \<Longrightarrow> m = nat n \<Longrightarrow> nat n \<le> length xs"
  by (auto simp: slice_to_def)

lemma slice_to_nth: "0 \<le> n \<Longrightarrow> r < nat n \<Longrightarrow> slice_to n xs ! r = xs ! r"
  by (simp add: slice_to_def)

lemma assemble_gt_Inr:
  assumes g: "assemble_gt env mb = Inr g" and n: "0 \<le> num_gt_boxes mb"
  shows "length (rws g) = nat (num_gt_boxes mb)"
    and "ncols g = ncols (gt_boxes mb) + ncols (gt_classes mb) + ncols (difficult mb) + 1"
    and "nat (num_gt_boxes mb) \<le> length (rws (gt_boxes mb))"
    and "nat (num_gt_boxes mb) \<le> length (rws (gt_classes mb))"
    and "nat (num_gt_boxes mb) \<le> length (rws (difficult mb))"
    and "r < nat (num_gt_boxes mb) \<Longrightarrow>
           rws g ! r = map (\<lambda>c. fdiv env c (im_scale mb)) (rws (gt_boxes mb) ! r)
                       @ rws (gt_classes mb) ! r @ rws (difficult mb) ! r
                       @ [of_bool_cell env False]"
proof -
  let ?n = "num_gt_boxes mb"
  let ?a = "div_scalar (fdiv env) (rows_to ?n (gt_boxes mb)) (im_scale mb)"
  let ?b = "rows_to ?n (gt_classes mb)"
  let ?c = "rows_to ?n (difficult mb)"
  let ?d = "newaxis_col (map (of_bool_cell env) (replicate (nat ?n) False))"
  from g have h: "hstack [?a, ?b, ?c, ?d] = Inr g"
    by (simp only: assemble_gt_def Let_def)
  have ld: "length (rws ?d) = nat ?n" by (simp add: newaxis_col_def)
  from hstack4(1)[OF h] ld have la: "length (slice_to ?n (rws (gt_boxes mb))) = nat ?n"
    by (simp add: div_scalar_def rows_to_def)
  from hstack4(2)[OF h] ld have lb: "length (slice_to ?n (rws (gt_classes mb))) = nat ?n"
    by (simp add: rows_to_def)
  from hstack4(3)[OF h] ld have lc: "length (slice_to ?n (rws (difficult mb))) = nat ?n"
    by (simp add: rows_to_def)
  from la n show A: "nat ?n \<le> length (rws (gt_boxes mb))" by (auto simp: slice_to_def)
  from lb n show B: "nat ?n \<le> length (rws (gt_classes mb))" by (auto simp: slice_to_def)
  from lc n show C: "nat ?n \<le> length (rws (difficult mb))" by (auto simp: slice_to_def)
  have rg: "rws g = map2 (@) (rws ?a) (map2 (@) (rws ?b) (map2 (@) (rws ?c) (rws ?d)))"
    by (rule hstack4(5)[OF h])
  from rg la lb lc ld show "length (rws g) = nat ?n"
    by (simp add: div_scalar_def rows_to_def)
  from hstack4(4)[OF h]
  show "ncols g = ncols (gt_boxes mb) + ncols (gt_classes mb) + ncols (difficult mb) + 1"
    by (simp add: div_scalar_def rows_to_def newaxis_col_def)
  show "rws g ! r = map (\<lambda>c. fdiv env c (im_scale mb)) (rws (gt_boxes mb) ! r)
                       @ rws (gt_classes mb) ! r @ rws (difficult mb) ! r
                       @ [of_bool_cell env False]" if r: "r < nat ?n"
    using r n la lb lc
    by (simp add: rg div_scalar_def rows_to_def newaxis_col_def slice_to_nth)
qed


lemma wf_ndarray_nth: "wf_ndarray a \<Longrightarrow> r < length (rws a) \<Longrightarrow> length (rws a ! r) = ncols a"
  by (simp add: wf_ndarray_def list_all_length)

text \<open>
  Claim C10. In a run that ends normally, the entry of \<open>all_gt_boxes\<close> for an image is an
  array with \<open>num_gt_boxes\<close> rows and 7 columns. A row is the four coordinates of the
  ground-truth box, each divided by \<open>im_scale\<close>, then the class, then the difficult flag,
  then the detected flag, which is \<open>False\<close> (as \<open>np.hstack\<close> stores it among numbers).
  The metadata buffers are the library's: coordinates in four columns, classes and
  difficult flags in one column each, and \<open>num_gt_boxes\<close> is a count.
\<close>

theorem gt_boxes_array:
  fixes env :: "('v, 'a, 'd) env"
  assumes run: "snd (script v env a) = Inr st"
    and i: "i < length (run_images env a)"
    and mb: "mb = run_images env a ! i"
    and n: "0 \<le> num_gt_boxes mb"
    and boxes: "wf_ndarray (gt_boxes mb)" "ncols (gt_boxes mb) = 4"
    and classes: "wf_ndarray (gt_classes mb)" "ncols (gt_classes mb) = 1"
    and diff: "wf_ndarray (difficult mb)" "ncols (difficult mb) = 1"
  shows "\<exists>g. all_gt_boxes st ! i = GtArray g \<and>
             int (length (rws g)) = num_gt_boxes mb \<and>
             ncols g = 7 \<and>
             wf_ndarray g \<and>
             (\<forall>r < length (rws g).
                length (rws (gt_boxes mb) ! r) = 4 \<and>
                length (rws (gt_classes mb) ! r) = 1 \<and>
                length (rws (difficult mb) ! r) = 1 \<and>
                rws g ! r = map (\<lambda>c. fdiv env c (im_scale mb)) (rws (gt_boxes mb) ! r)
                            @ rws (gt_classes mb) ! r @ rws (difficult mb) ! r
                            @ [of_bool_cell env False])"
proof -
  from script_Inr(3)[OF run] obtain evs where
    l: "inference_loop env (run_built env a) (run_num_images env a) 0 (run_images env a)
             \<lparr>all_boxes = init_all_boxes (su_num_classes (run_built env a)) (run_num_images env a),
              all_gt_boxes = replicate (nat (run_num_images env a)) EmptyList,
              last_strlen = 0\<rparr> = (evs, Inr st)"
    by blast
  from inference_loop_accs[OF l] i mb
  have e: "assemble_gt env mb = Inr (case all_gt_boxes st ! i of GtArray g \<Rightarrow> g)"
    and ne: "all_gt_boxes st ! i \<noteq> EmptyList"
    by auto
  from ne obtain g where gi: "all_gt_boxes st ! i = GtArray g"
    by (cases "all_gt_boxes st ! i") auto
  with e have ag: "assemble_gt env mb = Inr g" by simp
  note f = assemble_gt_Inr[OF ag n]
  have len: "int (length (rws g)) = num_gt_boxes mb" using f(1) n by simp
  have nc: "ncols g = 7" using f(2) boxes(2) classes(2) diff(2) by simp
  have row: "length (rws (gt_boxes mb) ! r) = 4 \<and>
             length (rws (gt_classes mb) ! r) = 1 \<and>
             length (rws (difficult mb) ! r) = 1 \<and>
             rws g ! r = map (\<lambda>c. fdiv env c (im_scale mb)) (rws (gt_boxes mb) ! r)
                         @ rws (gt_classes mb) ! r @ rws (difficult mb) ! r
                         @ [of_bool_cell env False]"
    if r: "r < length (rws g)" for r
  proof -
    from r f(1) have rn: "r < nat (num_gt_boxes mb)" by simp
    from rn f(3) have "r < length (rws (gt_boxes mb))" by simp
    from wf_ndarray_nth[OF boxes(1) this] boxes(2)
    have 1: "length (rws (gt_boxes mb) ! r) = 4" by simp
    from rn f(4) have "r < length (rws (gt_classes mb))" by simp
    from wf_ndarray_nth[OF classes(1) this] classes(2)
    have 2: "length (rws (gt_classes mb) ! r) = 1" by simp
    from rn f(5) have "r < length (rws (difficult mb))" by simp
    from wf_ndarray_nth[OF diff(1) this] diff(2)
    have 3: "length (rws (difficult mb) ! r) = 1" by simp
    from 1 2 3 f(6)[OF rn] show ?thesis by blast
  qed
  have wf: "wf_ndarray g"
    unfolding wf_ndarray_def list_all_length
  proof (intro allI impI)
    fix r assume r: "r < length (rws g)"
    from row[OF r] nc show "length (rws g ! r) = ncols g" by simp
  qed
  from gi len nc wf row show ?thesis by blast
qed

theorem gt_boxes_array_witness:
  "snd (script Python2 example_env example_args) = Inr example_accs \<and>
   (1::nat) < length (run_images example_env example_args) \<and>
   0 \<le> num_gt_boxes (run_images example_env example_args ! 1) \<and>
   wf_ndarray (gt_boxes (run_images example_env example_args ! 1)) \<and>
   ncols (gt_boxes (run_images example_env example_args ! 1)) = 4 \<and>
   wf_ndarray (gt_classes (run_images example_env example_args ! 1)) \<and>
   ncols (gt_classes (run_images example_env example_args ! 1)) = 1 \<and>
   wf_ndarray (difficult (run_images example_env example_args ! 1)) \<and>
   ncols (difficult (run_images example_env example_args ! 1)) = 1 \<and>
   (\<exists>g. all_gt_boxes example_accs ! 1 = GtArray g \<and>
        int (length (rws g)) = 2 \<and> ncols g = 7 \<and> wf_ndarray g \<and>
        rws g ! 1 = [2, 2, 9, 9, 2, 1, 0])"
proof -
  let ?mb = "run_images example_env example_args ! 1"
  have im: "run_images example_env example_args = example_images"
    by (simp add: run_images_def example_env_def)
  have h: "(1::nat) < length (run_images example_env example_args)"
       "0 \<le> num_gt_boxes ?mb"
       "wf_ndarray (gt_boxes ?mb)" "ncols (gt_boxes ?mb) = 4"
       "wf_ndarray (gt_classes ?mb)" "ncols (gt_classes ?mb) = 1"
       "wf_ndarray (difficult ?mb)" "ncols (difficult ?mb) = 1"
    by (simp_all add: im example_images_def wf_ndarray_def)
  from gt_boxes_array[OF example_run h(1) refl h(2-8)] obtain g where
    g: "all_gt_boxes example_accs ! 1 = GtArray g" "int (length (rws g)) = num_gt_boxes ?mb"
       "ncols g = 7" "wf_ndarray g"
    by blast
  from g(1) have "rws g ! 1 = [2, 2, 9, 9, 2, 1, 0]"
    by (auto simp: example_accs_def)
  moreover from g(2) have "int (length (rws g)) = 2"
    by (simp add: im example_images_def)
  ultimately show ?thesis using example_run h g by blast
qed

subsection \<open>What a run writes\<close>

lemma output_setup_events: "filter is_output (setup_events env a) = []"
  by (simp add: setup_events_def)

lemma output_iteration_events:
  "filter is_output (iteration_events env su n l i mb) =
     [StdoutWrite (erase_str l), StdoutWrite (prt_str i n), StdoutFlush]"
  by (simp add: iteration_events_def)

lemma output_loop_events:
  "filter is_output (loop_events env su n l i mbs) =
     concat (map (\<lambda>k. [StdoutWrite (erase_str (if k = i then l else length (prt_str (k - 1) n))),
                        StdoutWrite (prt_str k n), StdoutFlush])
               [i..<i + length mbs])"
proof (induction mbs arbitrary: l i)
  case Nil
  show ?case by simp
next
  case (Cons mb mbs)
  let ?f = "\<lambda>k. [StdoutWrite (erase_str (if k = i then l else length (prt_str (k - 1) n))),
                  StdoutWrite (prt_str k n), StdoutFlush] :: ('a, 'b, 'c) event list"
  let ?g = "\<lambda>k. [StdoutWrite (erase_str (if k = Suc i then length (prt_str i n)
                                         else length (prt_str (k - 1) n))),
                  StdoutWrite (prt_str k n), StdoutFlush] :: ('a, 'b, 'c) event list"
  have e: "i + length (mb # mbs) = Suc i + length mbs" by simp
  have "i < Suc i + length mbs" by simp
  from upt_conv_Cons[OF this]
  have u: "[i..<i + length (mb # mbs)] = i # [Suc i..<Suc i + length mbs]"
    unfolding e .
  have fg: "map ?g [Suc i..<Suc i + length mbs] = map ?f [Suc i..<Suc i + length mbs]"
    by (rule map_cong) auto
  have "filter is_output (loop_events env su n l i (mb # mbs)) =
          ?f i @ concat (map ?g [Suc i..<Suc i + length mbs])"
    using Cons.IH[of "length (prt_str i n)" "Suc i"]
    by (simp add: output_iteration_events)
  also have "\<dots> = concat (map ?f [i..<i + length (mb # mbs)])"
    unfolding u fg by simp
  finally show ?case .
qed

text \<open>
  Claim C5. In a run that ends normally, what the script writes is, for each image index
  \<open>i\<close> in turn, a carriage return, as many spaces as the previous progress line was long
  and a carriage return, then the line \<open>Finished: i / num_images\<close>, then a flush of
  standard output; and after the loop the logger line \<open>Evaluating detections\<close>, which is
  followed by the call of \<open>voc_eval\<close> with \<open>use_07_metric=True\<close>. The script writes nothing
  else: no output file.
\<close>

theorem progress_output:
  fixes env :: "('v, 'a, 'd) env"
  assumes "snd (script v env a) = Inr st"
  shows "filter is_output (fst (script v env a)) =
           concat (map (\<lambda>i. [StdoutWrite (CHR 0x0D # replicate (prev_strlen (run_num_images env a) i) CHR '' ''
                                           @ [CHR 0x0D]),
                              StdoutWrite (''Finished: '' @ str_of_nat i @ '' / ''
                                           @ str_of_int (run_num_images env a)),
                              StdoutFlush])
                     [0..<length (run_images env a)])
           @ [LoggerDisplay ''Evaluating detections''] \<and>
         (\<forall>i. 0 < i \<longrightarrow> prev_strlen (run_num_images env a) i =
                 length (''Finished: '' @ str_of_nat (i - 1) @ '' / ''
                         @ str_of_int (run_num_images env a))) \<and>
         prev_strlen (run_num_images env a) 0 = 0 \<and>
         (\<exists>pre. fst (script v env a) =
                  pre @ [LoggerDisplay ''Evaluating detections'',
                         VocEval (all_boxes st) (all_gt_boxes st)
                           (CLASSES env (su_valid_set (run_built env a))) True] \<and>
                filter is_output pre =
                  concat (map (\<lambda>i. [StdoutWrite (CHR 0x0D # replicate (prev_strlen (run_num_images env a) i) CHR '' ''
                                                  @ [CHR 0x0D]),
                                     StdoutWrite (''Finished: '' @ str_of_nat i @ '' / ''
                                                  @ str_of_int (run_num_images env a)),
                                     StdoutFlush])
                            [0..<length (run_images env a)]))"
proof -
  let ?n = "run_num_images env a"
  let ?pre = "ParseArgs # setup_events env (resolve_output_dir a)
              @ loop_events env (run_built env a) ?n 0 0 (run_images env a)"
  let ?out = "concat (map (\<lambda>i. [StdoutWrite (CHR 0x0D # replicate (prev_strlen ?n i) CHR '' '' @ [CHR 0x0D]),
                              StdoutWrite (''Finished: '' @ str_of_nat i @ '' / '' @ str_of_int ?n),
                              StdoutFlush :: ('v, 'a, 'd) event])
                     [0..<length (run_images env a)])"
  note t = script_trace[OF assms]
  have p: "filter is_output ?pre = ?out"
    by (simp add: output_setup_events output_loop_events prev_strlen_def erase_str_def prt_str_def)
  have 1: "filter is_output (fst (script v env a)) = ?out @ [LoggerDisplay ''Evaluating detections'']"
    unfolding t using p by simp
  have 2: "prev_strlen ?n i = length (''Finished: '' @ str_of_nat (i - 1) @ '' / '' @ str_of_int ?n)"
    if "0 < i" for i
    using that by (simp add: prev_strlen_def prt_str_def)
  have 3: "prev_strlen ?n 0 = 0" by (simp add: prev_strlen_def)
  have 4: "fst (script v env a) =
             ?pre @ [LoggerDisplay ''Evaluating detections'',
                     VocEval (all_boxes st) (all_gt_boxes st)
                       (CLASSES env (su_valid_set (run_built env a))) True]"
    unfolding t by simp
  from 1 2 3 4 p show ?thesis by blast
qed

theorem progress_output_witness:
  "snd (script Python2 example_env example_args) = Inr example_accs \<and>
   filter is_output (fst (script Python2 example_env example_args)) =
     [StdoutWrite [CHR 0x0D, CHR 0x0D], StdoutWrite ''Finished: 0 / 2'', StdoutFlush,
      StdoutWrite (CHR 0x0D # replicate 15 CHR '' '' @ [CHR 0x0D]),
      StdoutWrite ''Finished: 1 / 2'', StdoutFlush,
      LoggerDisplay ''Evaluating detections'']"
proof -
  have u: "[0..<length example_images] = [0, 1]"
    by (simp add: example_images_def upt_conv_Cons)
  have s: "str_of_nat 0 = ''0''" "str_of_nat (Suc 0) = ''1''" "str_of_int 2 = ''2''"
       "replicate 15 CHR '' '' = ''               ''"
    by code_simp+
  from progress_output[OF example_run]
  have "filter is_output (fst (script Python2 example_env example_args)) =
     [StdoutWrite [CHR 0x0D, CHR 0x0D], StdoutWrite ''Finished: 0 / 2'', StdoutFlush,
      StdoutWrite (CHR 0x0D # replicate 15 CHR '' '' @ [CHR 0x0D]),
      StdoutWrite ''Finished: 1 / 2'', StdoutFlush,
      LoggerDisplay ''Evaluating detections'']"
    by (simp add: example_run_facts u s prev_strlen_def prt_str_def)
  with example_run show ?thesis by blast
qed

subsection \<open>Assignments to the accumulators\<close>

lemma count_setup_events:
  "count_list (setup_events env a) (SetAllBoxes j) = 0"
  "count_list (setup_events env a) (SetAllGtBoxes j) = 0"
  by (simp_all add: setup_events_def)

lemma count_loop_events:
  "count_list (loop_events env su n l i mbs) (SetAllBoxes j) =
     (if i \<le> j \<and> j < i + length mbs then 1 else 0)"
  "count_list (loop_events env su n l i mbs) (SetAllGtBoxes j) =
     (if i \<le> j \<and> j < i + length mbs then 1 else 0)"
  by (induction mbs arbitrary: l i) (auto simp: iteration_events_def)

lemma loop_body_snd_Inr:
  assumes "snd (loop_body env su n i mb st) = Inr st'"
  shows "\<exists>ev. loop_body env su n i mb st = (ev, Inr st')"
  using assms by (cases "loop_body env su n i mb st") simp

lemma example_step:
  "snd (loop_body example_env (run_built example_env example_args) 2 0 (hd example_images)
          \<lparr>all_boxes = [[[], []], [[], []]], all_gt_boxes = [EmptyList, EmptyList],
           last_strlen = 0\<rparr>)
     = Inr \<lparr>all_boxes = [[[16], []], [[], []]],
            all_gt_boxes = [GtArray \<lparr>ncols = 7, rws = [[1, 2, 3, 4, 3, 0, 0]]\<rparr>, EmptyList],
            last_strlen = 15\<rparr>"
  by code_simp

text \<open>
  Claim C7. An iteration for the image index \<open>mb_idx\<close> that ends normally changes
  \<open>all_boxes\<close> and \<open>all_gt_boxes\<close> at \<open>mb_idx\<close> only: there it stores the decoded boxes
  and the ground-truth array, and every other entry is as before. In a run that ends
  normally on a data set that delivers \<open>num_images\<close> images, every index of the two
  accumulators is assigned exactly once, with the boxes and the array of its image.
\<close>

theorem iteration_writes_own_index:
  fixes env :: "('v, 'a, 'd) env"
  assumes step: "snd (loop_body env su n i mb s) = Inr s'"
    and run: "snd (script v env a) = Inr st"
    and every: "length (run_images env a) = nat (run_num_images env a)"
  shows "(\<exists>g. assemble_gt env mb = Inr g \<and>
              all_boxes s' = (all_boxes s)[i := image_boxes env su mb] \<and>
              all_gt_boxes s' = (all_gt_boxes s)[i := GtArray g]) \<and>
         (\<forall>j. j \<noteq> i \<longrightarrow>
              all_boxes s' ! j = all_boxes s ! j \<and> all_gt_boxes s' ! j = all_gt_boxes s ! j) \<and>
         length (all_boxes st) = nat (run_num_images env a) \<and>
         length (all_gt_boxes st) = nat (run_num_images env a) \<and>
         (\<forall>j < nat (run_num_images env a).
              count_list (fst (script v env a)) (SetAllBoxes j) = 1 \<and>
              count_list (fst (script v env a)) (SetAllGtBoxes j) = 1 \<and>
              all_boxes st ! j = image_boxes env (run_built env a) (run_images env a ! j) \<and>
              (\<exists>g. assemble_gt env (run_images env a ! j) = Inr g \<and>
                    all_gt_boxes st ! j = GtArray g))"
proof -
  from loop_body_snd_Inr[OF step] obtain ev where b: "loop_body env su n i mb s = (ev, Inr s')" ..
  from loop_body_Inr(4)[OF b] obtain g where
    g: "assemble_gt env mb = Inr g" and
    s': "s' = \<lparr>all_boxes = (all_boxes s)[i := image_boxes env su mb],
               all_gt_boxes = (all_gt_boxes s)[i := GtArray g],
               last_strlen = length (prt_str i n)\<rparr>"
    by blast
  have 1: "\<exists>g. assemble_gt env mb = Inr g \<and>
              all_boxes s' = (all_boxes s)[i := image_boxes env su mb] \<and>
              all_gt_boxes s' = (all_gt_boxes s)[i := GtArray g]"
    using g s' by simp
  have 2: "all_boxes s' ! j = all_boxes s ! j \<and> all_gt_boxes s' ! j = all_gt_boxes s ! j"
    if "j \<noteq> i" for j
    using that s' by simp
  let ?N = "run_num_images env a"
  from script_Inr(3)[OF run] obtain evs where
    l: "inference_loop env (run_built env a) ?N 0 (run_images env a)
             \<lparr>all_boxes = init_all_boxes (su_num_classes (run_built env a)) ?N,
              all_gt_boxes = replicate (nat ?N) EmptyList,
              last_strlen = 0\<rparr> = (evs, Inr st)"
    by blast
  note acc = inference_loop_accs[OF l]
  have len: "length (all_boxes st) = nat ?N" "length (all_gt_boxes st) = nat ?N"
    using acc by (simp_all add: init_all_boxes_def)
  note t = script_trace[OF run]
  have 3: "count_list (fst (script v env a)) (SetAllBoxes j) = 1 \<and>
           count_list (fst (script v env a)) (SetAllGtBoxes j) = 1 \<and>
           all_boxes st ! j = image_boxes env (run_built env a) (run_images env a ! j) \<and>
           (\<exists>g. assemble_gt env (run_images env a ! j) = Inr g \<and> all_gt_boxes st ! j = GtArray g)"
    if j: "j < nat ?N" for j
  proof -
    from j every have jl: "j < length (run_images env a)" by simp
    have c: "count_list (fst (script v env a)) (SetAllBoxes j) = 1"
            "count_list (fst (script v env a)) (SetAllGtBoxes j) = 1"
      using jl by (simp_all add: t count_setup_events count_loop_events)
    from acc jl
    have bx: "all_boxes st ! j = image_boxes env (run_built env a) (run_images env a ! j)"
      and e: "assemble_gt env (run_images env a ! j) =
                Inr (case all_gt_boxes st ! j of GtArray g \<Rightarrow> g)"
      and ne: "all_gt_boxes st ! j \<noteq> EmptyList"
      by auto
    from ne obtain g' where "all_gt_boxes st ! j = GtArray g'"
      by (cases "all_gt_boxes st ! j") auto
    with e have "\<exists>g. assemble_gt env (run_images env a ! j) = Inr g \<and> all_gt_boxes st ! j = GtArray g"
      by simp
    with c bx show ?thesis by blast
  qed
  from 1 2 len 3 show ?thesis by blast
qed

theorem iteration_writes_own_index_witness:
  "snd (loop_body example_env (run_built example_env example_args) 2 0 (hd example_images)
          \<lparr>all_boxes = [[[], []], [[], []]], all_gt_boxes = [EmptyList, EmptyList],
           last_strlen = 0\<rparr>)
     = Inr \<lparr>all_boxes = [[[16], []], [[], []]],
            all_gt_boxes = [GtArray \<lparr>ncols = 7, rws = [[1, 2, 3, 4, 3, 0, 0]]\<rparr>, EmptyList],
            last_strlen = 15\<rparr> \<and>
   snd (script Python2 example_env example_args) = Inr example_accs \<and>
   length (run_images example_env example_args) = nat (run_num_images example_env example_args) \<and>
   count_list (fst (script Python2 example_env example_args)) (SetAllBoxes 0) = 1 \<and>
   count_list (fst (script Python2 example_env example_args)) (SetAllGtBoxes 0) = 1 \<and>
   count_list (fst (script Python2 example_env example_args)) (SetAllBoxes 1) = 1 \<and>
   count_list (fst (script Python2 example_env example_args)) (SetAllGtBoxes 1) = 1"
proof -
  have every: "length (run_images example_env example_args)
                 = nat (run_num_images example_env example_args)"
    by (simp add: example_run_facts example_images_def)
  note t = iteration_writes_own_index[OF example_step example_run every]
  have n: "(0::nat) < nat (run_num_images example_env example_args)"
          "(1::nat) < nat (run_num_images example_env example_args)"
    by (simp_all add: example_run_facts)
  from t n have
    "count_list (fst (script Python2 example_env example_args)) (SetAllBoxes 0) = 1 \<and>
     count_list (fst (script Python2 example_env example_args)) (SetAllGtBoxes 0) = 1 \<and>
     count_list (fst (script Python2 example_env example_args)) (SetAllBoxes 1) = 1 \<and>
     count_list (fst (script Python2 example_env example_args)) (SetAllGtBoxes 1) = 1"
    by blast
  with example_step example_run every show ?thesis by blast
qed

end
